theory Spec2Isabelle
  imports Complex_Main
begin

section \<open>Pose mathematics of \<^verbatim>\<open>cpp_extensions/elite_ext.cpp\<close>\<close>

text \<open>
  The C++ source computes on \<^verbatim>\<open>double\<close>. The embedding idealises every \<^verbatim>\<open>double\<close> as a
  \<^typ>\<open>real\<close>: rounding is not modelled, and the thresholds of the source
  (\<^verbatim>\<open>1e-6\<close>, \<^verbatim>\<open>1e-9\<close>, \<^verbatim>\<open>0.002\<close>) keep their decimal values. The struct \<^verbatim>\<open>Vec3\<close> has the
  fields \<^verbatim>\<open>x\<close>, \<^verbatim>\<open>y\<close>, \<^verbatim>\<open>z\<close>; the selectors are called \<open>vx\<close>, \<open>vy\<close>, \<open>vz\<close> here so that
  one-letter variable names stay free.
\<close>

datatype Vec3 = Vec3 (vx: real) (vy: real) (vz: real)

definition dot :: "Vec3 \<Rightarrow> Vec3 \<Rightarrow> real" where
  "dot a o' = vx a * vx o' + vy a * vy o' + vz a * vz o'"

definition cross :: "Vec3 \<Rightarrow> Vec3 \<Rightarrow> Vec3" where
  "cross a o' =
     Vec3 (vy a * vz o' - vz a * vy o') (vz a * vx o' - vx a * vz o') (vx a * vy o' - vy a * vx o')"

definition length_vec :: "Vec3 \<Rightarrow> real" where
  "length_vec a = sqrt (vx a * vx a + vy a * vy a + vz a * vz a)"

definition normalize_vec :: "Vec3 \<Rightarrow> Vec3" where
  "normalize_vec a =
     (let l = length_vec a
      in if l < 0.000000001 then Vec3 0 0 1 else Vec3 (vx a / l) (vy a / l) (vz a / l))"

text \<open>
  \<^verbatim>\<open>matrixToRotVec(X, Y, Z)\<close>: the three vectors are the columns of the matrix
  (\<^verbatim>\<open>r11 = X.x, r12 = Y.x, r13 = Z.x, r21 = X.y, ...\<close>, as the comment above the function
  draws it). The result is the \<^verbatim>\<open>std::vector\<close> of the three rotation-vector components.
\<close>

definition matrixToRotVec :: "Vec3 \<Rightarrow> Vec3 \<Rightarrow> Vec3 \<Rightarrow> real list" where
  "matrixToRotVec X Y Z =
     (let r11 = vx X; r12 = vx Y; r13 = vx Z;
          r21 = vy X; r22 = vy Y; r23 = vy Z;
          r31 = vz X; r32 = vz Y; r33 = vz Z;
          trace = r11 + r22 + r33
      in if trace \<ge> 3.0 - 0.000001 then [0, 0, 0]
         else
           let (theta, axis) =
             (if trace \<le> - 1.0 + 0.000001 then
                (3.141592653589793,
                 if r11 > r22 \<and> r11 > r33 then
                   Vec3 (sqrt ((r11 + 1) / 2))
                        ((r12 + r21) / (2 * sqrt ((r11 + 1) / 2)))
                        ((r13 + r31) / (2 * sqrt ((r11 + 1) / 2)))
                 else if r22 > r33 then
                   Vec3 ((r12 + r21) / (2 * sqrt ((r22 + 1) / 2)))
                        (sqrt ((r22 + 1) / 2))
                        ((r23 + r32) / (2 * sqrt ((r22 + 1) / 2)))
                 else
                   Vec3 ((r13 + r31) / (2 * sqrt ((r33 + 1) / 2)))
                        ((r23 + r32) / (2 * sqrt ((r33 + 1) / 2)))
                        (sqrt ((r33 + 1) / 2)))
              else
                (let theta = arccos ((trace - 1.0) / 2.0);
                     s = 2.0 * sin theta
                 in (theta, Vec3 ((r32 - r23) / s) ((r13 - r31) / s) ((r21 - r12) / s))));
               axis' = normalize_vec axis
           in [vx axis' * theta, vy axis' * theta, vz axis' * theta])"

text \<open>
  \<^verbatim>\<open>rotVecToMatrix(rx, ry, rz, X, Y, Z)\<close> writes its three output parameters; the model
  returns them as a triple \<open>(X, Y, Z)\<close>.
\<close>

definition rotVecToMatrix :: "real \<Rightarrow> real \<Rightarrow> real \<Rightarrow> Vec3 \<times> Vec3 \<times> Vec3" where
  "rotVecToMatrix rx ry rz =
     (let theta = sqrt (rx * rx + ry * ry + rz * rz)
      in if theta < 0.000001 then (Vec3 1 0 0, Vec3 0 1 0, Vec3 0 0 1)
         else
           let kx = rx / theta; ky = ry / theta; kz = rz / theta;
               c = cos theta; s = sin theta; v = 1 - c
           in (Vec3 (kx * kx * v + c) (kx * ky * v - kz * s) (kx * kz * v + ky * s),
               Vec3 (kx * ky * v + kz * s) (ky * ky * v + c) (ky * kz * v - kx * s),
               Vec3 (kx * kz * v - ky * s) (ky * kz * v + kx * s) (kz * kz * v + c)))"

text \<open>The round trip of the two conversions, the rotation vector passed on component by component.\<close>

definition roundtrip :: "Vec3 \<Rightarrow> Vec3 \<Rightarrow> Vec3 \<Rightarrow> Vec3 \<times> Vec3 \<times> Vec3" where
  "roundtrip X Y Z =
     (let r = matrixToRotVec X Y Z in rotVecToMatrix (r ! 0) (r ! 1) (r ! 2))"

section \<open>Calibration runs of \<^verbatim>\<open>EliteCalibration\<close>\<close>

text \<open>
  \<^verbatim>\<open>vector6d_t\<close> is the SDK's array of six doubles \<open>[x, y, z, rx, ry, rz]\<close>; it is a list
  here, and every pose the runs build has six elements.
\<close>

type_synonym vector6d_t = "real list"

definition zero_pose :: vector6d_t where
  "zero_pose = [0, 0, 0, 0, 0, 0]"

definition GRID_STEP :: real where
  "GRID_STEP = 0.05"

definition MOVE_SPEED :: real where
  "MOVE_SPEED = 0.2"

definition MOVE_ACCEL :: real where
  "MOVE_ACCEL = 0.5"

text \<open>
  The scripts sent through \<^verbatim>\<open>primary->sendScript\<close> are all of the shape
  \<^verbatim>\<open>movel([p0,...,p5], a=A, v=V)\<close>; the model keeps the three arguments instead of the text.
  Log lines that print numbers keep the numbers.
\<close>

datatype script = MoveL vector6d_t real real

datatype log_entry =
    Text string
  | MovingToPoint nat
  | ProcessingPoint nat nat
  | PyramidInfo int real real real real string
  | PointData nat vector6d_t

text \<open>
  What the run receives from outside. \<open>dashboard_set\<close> and \<open>primary_set\<close> say that the two
  client pointers are not null; \<open>powerOn_ok\<close> and \<open>brakeRelease_ok\<close> are the results of the
  two dashboard calls. The pose provider is a Python callable: \<open>None\<close> is the empty
  \<^verbatim>\<open>std::function\<close>, \<open>Some f\<close> answers its \<open>n\<close>-th call (counted from 0) with the vector
  \<open>f n\<close>, in millimetres and degrees. The capture callback is \<open>None\<close> when empty; otherwise
  \<open>g idx = None\<close> when the call returns and \<open>g idx = Some what\<close> when it throws a
  \<^verbatim>\<open>std::exception\<close> with that message (pybind11 hands every Python exception on as
  \<^verbatim>\<open>error_already_set\<close>, which derives from \<^verbatim>\<open>std::exception\<close>). \<open>outfile_opens\<close> is the
  result of \<^verbatim>\<open>outfile.is_open()\<close>. The log sink is taken not to throw, and the blocking
  sleeps are left out: the model has no clock.
\<close>

record environment =
  dashboard_set :: bool
  primary_set :: bool
  powerOn_ok :: bool
  brakeRelease_ok :: bool
  capture_callback :: "(nat \<Rightarrow> string option) option"
  get_pose_callback :: "(nat \<Rightarrow> real list) option"
  outfile_opens :: bool

text \<open>
  Everything a run changes: the number of calls made to the pose provider, the log, the
  scripts sent, the rows of \<^verbatim>\<open>data_lines\<close> (point id and sampled pose; the file header and
  the six-decimal formatting are not modelled), the point ids handed to the capture
  callback, and the file written (name and rows).
\<close>

record run_state =
  pose_calls :: nat
  log_lines :: "log_entry list"
  scripts :: "script list"
  data_lines :: "(nat \<times> vector6d_t) list"
  captured :: "nat list"
  outfile :: "(string \<times> (nat \<times> vector6d_t) list) option"

definition initial_state :: run_state where
  "initial_state =
     \<lparr>pose_calls = 0, log_lines = [], scripts = [], data_lines = [], captured = [],
      outfile = None\<rparr>"

definition log_msg :: "log_entry \<Rightarrow> run_state \<Rightarrow> run_state" where
  "log_msg m s = s\<lparr>log_lines := log_lines s @ [m]\<rparr>"

definition sendScript :: "script \<Rightarrow> run_state \<Rightarrow> run_state" where
  "sendScript c s = s\<lparr>scripts := scripts s @ [c]\<rparr>"

definition get_current_pose_m_rad :: "environment \<Rightarrow> run_state \<Rightarrow> vector6d_t \<times> run_state" where
  "get_current_pose_m_rad e s =
     (case get_pose_callback e of
        None \<Rightarrow> (zero_pose, s)
      | Some f \<Rightarrow>
          let p = f (pose_calls s);
              s' = s\<lparr>pose_calls := Suc (pose_calls s)\<rparr>
          in if length p < 6 then (zero_pose, s')
             else ([p ! 0 / 1000.0, p ! 1 / 1000.0, p ! 2 / 1000.0,
                    p ! 3 / 57.29578, p ! 4 / 57.29578, p ! 5 / 57.29578], s'))"

definition dist_sq :: "vector6d_t \<Rightarrow> vector6d_t \<Rightarrow> real" where
  "dist_sq cur target =
     0 + (cur ! 0 - target ! 0)\<^sup>2 + (cur ! 1 - target ! 1)\<^sup>2 + (cur ! 2 - target ! 2)\<^sup>2"

definition rot_sq :: "vector6d_t \<Rightarrow> vector6d_t \<Rightarrow> real" where
  "rot_sq cur target =
     0 + (cur ! 3 - target ! 3)\<^sup>2 + (cur ! 4 - target ! 4)\<^sup>2 + (cur ! 5 - target ! 5)\<^sup>2"

text \<open>
  The wait loop \<^verbatim>\<open>while (timeout > 0) { cur = ...; if (sqrt(dist_sq) < 0.002) break; sleep;
  timeout--; }\<close>, written three times in the source (grid base move, pyramid base move,
  pyramid restore) with the start values 100, 200 and 50. The start value is the
  parameter \<open>timeout\<close>; the result is the value of \<^verbatim>\<open>timeout\<close> when the loop is left.
\<close>

function wait_arrival :: "environment \<Rightarrow> vector6d_t \<Rightarrow> int \<Rightarrow> run_state \<Rightarrow> int \<times> run_state" where
  "wait_arrival e target timeout s =
     (if timeout > 0 then
        (let (cur, s') = get_current_pose_m_rad e s
         in if sqrt (dist_sq cur target) < 0.002 then (timeout, s')
            else wait_arrival e target (timeout - 1) s')
      else (timeout, s))"
  by pat_completeness auto
termination
  by (relation "measure (\<lambda>(e, target, timeout, s). nat timeout)") auto

text \<open>The wait loop of the dither move, which checks the rotation components too.\<close>

function wait_dither :: "environment \<Rightarrow> vector6d_t \<Rightarrow> int \<Rightarrow> run_state \<Rightarrow> int \<times> run_state" where
  "wait_dither e p_dither timeout s =
     (if timeout > 0 then
        (let (cur, s') = get_current_pose_m_rad e s
         in if sqrt (dist_sq cur p_dither) < 0.002 \<and> sqrt (rot_sq cur p_dither) < 0.05
            then (timeout, s')
            else wait_dither e p_dither (timeout - 1) s')
      else (timeout, s))"
  by pat_completeness auto
termination
  by (relation "measure (\<lambda>(e, p_dither, timeout, s). nat timeout)") auto

text \<open>
  The guarded call of the capture callback, \<^verbatim>\<open>try { capture_callback(point_idx); } catch
  (const std::exception &e) { log(prefix + e.what()); }\<close>; the two runs differ in the prefix.
\<close>

definition trigger_capture :: "environment \<Rightarrow> string \<Rightarrow> nat \<Rightarrow> run_state \<Rightarrow> run_state" where
  "trigger_capture e prefix point_idx s =
     (case capture_callback e of
        None \<Rightarrow> s
      | Some g \<Rightarrow>
          let s' = s\<lparr>captured := captured s @ [point_idx]\<rparr>
          in (case g point_idx of
                None \<Rightarrow> s'
              | Some what \<Rightarrow> log_msg (Text (prefix @ what)) s'))"

subsection \<open>\<^verbatim>\<open>run_calibration\<close>: the nine-point grid\<close>

definition grid_points :: "vector6d_t \<Rightarrow> vector6d_t list" where
  "grid_points center_pose =
     (let cy = center_pose ! 1;
          cz = center_pose ! 2;
          steps = [- GRID_STEP, 0, GRID_STEP]
      in concat (map (\<lambda>dz. map (\<lambda>dy. center_pose[1 := cy + dy, 2 := cz + dz]) steps) steps))"

text \<open>One pass of the point loop up to the timeout test: log, send the move, wait.\<close>

definition grid_move :: "environment \<Rightarrow> vector6d_t \<Rightarrow> nat \<Rightarrow> run_state \<Rightarrow> int \<times> run_state" where
  "grid_move e point point_idx s =
     wait_arrival e point 100
       (sendScript (MoveL point MOVE_ACCEL MOVE_SPEED) (log_msg (MovingToPoint point_idx) s))"

text \<open>The rest of the pass: sample the pose, append the row, call the capture callback.\<close>

definition grid_record :: "environment \<Rightarrow> nat \<Rightarrow> run_state \<Rightarrow> run_state" where
  "grid_record e point_idx s =
     (let (current_pose, s1) = get_current_pose_m_rad e s;
          s2 = s1\<lparr>data_lines := data_lines s1 @ [(point_idx, current_pose)]\<rparr>;
          s3 = log_msg (PointData point_idx current_pose) s2;
          s4 = log_msg (Text ''Triggering Camera Capture (Callback)...'') s3;
          s5 = trigger_capture e ''Capture callback error: '' point_idx s4
      in log_msg (Text ''Capture Done.'') s5)"

function grid_loop :: "environment \<Rightarrow> vector6d_t list \<Rightarrow> nat \<Rightarrow> run_state \<Rightarrow> run_state" where
  "grid_loop e points i s =
     (if i < length points then
        (let point_idx = i + 1;
             (timeout, s1) = grid_move e (points ! i) point_idx s
         in if timeout \<le> 0
            then log_msg (Text ''Timeout waiting for robot to reach point'') s1
            else grid_loop e points (i + 1) (grid_record e point_idx s1))
      else s)"
  by pat_completeness auto
termination
  by (relation "measure (\<lambda>(e, points, i, s). length points - i)") auto

definition run_calibration :: "environment \<Rightarrow> run_state \<Rightarrow> run_state" where
  "run_calibration e s =
     (if \<not> dashboard_set e \<or> \<not> primary_set e
      then log_msg (Text ''Error: Not connected (nullptr check)'') s
      else if \<not> powerOn_ok e then log_msg (Text ''Failed to power on'') s
      else if \<not> brakeRelease_ok e then log_msg (Text ''Failed to release brake'') s
      else
        let s1 = log_msg (Text ''[C++] Starting 9-Point Calibration (YOZ Plane, Lens X+)...'') s;
            s2 = log_msg (Text ''Using External Pose Data from Python (RTSI Bypass)'') s1;
            (center_pose, s3) = get_current_pose_m_rad e s2;
            points = grid_points center_pose;
            s4 = grid_loop e points 0 s3;
            filename = ''workspace/calibration_data.txt'';
            s5 = (if outfile_opens e
                  then log_msg (Text (''Calibration data saved to: '' @ filename))
                         (s4\<lparr>outfile := Some (filename, data_lines s4)\<rparr>)
                  else log_msg (Text (''Failed to open file for writing: '' @ filename)) s4);
            s6 = log_msg (Text ''Calibration finished. Returning to center...'') s5
        in sendScript (MoveL center_pose 0.5 0.2) s6)"

subsection \<open>\<^verbatim>\<open>run_3d_calibration\<close>: the pyramid\<close>

text \<open>
  The direction table: the six \<^verbatim>\<open>int\<close>/\<^verbatim>\<open>double\<close> locals set by the chain of string
  comparisons. A string that is none of the six keeps the initial values, which are
  those of \<^verbatim>\<open>Z+\<close>.
\<close>

record axes =
  ax_h :: nat
  ax_w1 :: nat
  ax_w2 :: nat
  ax_r1 :: nat
  ax_r2 :: nat
  h_sign :: real

definition direction_axes :: "string \<Rightarrow> axes" where
  "direction_axes direction =
     (if direction = ''Z+'' then
        \<lparr>ax_h = 2, ax_w1 = 0, ax_w2 = 1, ax_r1 = 3, ax_r2 = 4, h_sign = 1.0\<rparr>
      else if direction = ''Z-'' then
        \<lparr>ax_h = 2, ax_w1 = 0, ax_w2 = 1, ax_r1 = 3, ax_r2 = 4, h_sign = - 1.0\<rparr>
      else if direction = ''Y+'' then
        \<lparr>ax_h = 1, ax_w1 = 0, ax_w2 = 2, ax_r1 = 3, ax_r2 = 5, h_sign = 1.0\<rparr>
      else if direction = ''Y-'' then
        \<lparr>ax_h = 1, ax_w1 = 0, ax_w2 = 2, ax_r1 = 3, ax_r2 = 5, h_sign = - 1.0\<rparr>
      else if direction = ''X+'' then
        \<lparr>ax_h = 0, ax_w1 = 1, ax_w2 = 2, ax_r1 = 4, ax_r2 = 5, h_sign = 1.0\<rparr>
      else if direction = ''X-'' then
        \<lparr>ax_h = 0, ax_w1 = 1, ax_w2 = 2, ax_r1 = 4, ax_r2 = 5, h_sign = - 1.0\<rparr>
      else
        \<lparr>ax_h = 2, ax_w1 = 0, ax_w2 = 1, ax_r1 = 3, ax_r2 = 4, h_sign = 1.0\<rparr>)"

definition corner_signs :: "(real \<times> real) list" where
  "corner_signs = [(- 1.0, - 1.0), (- 1.0, 1.0), (1.0, 1.0), (1.0, - 1.0)]"

text \<open>
  \<^verbatim>\<open>p[k] += d\<close> for an index the direction table supplies. \<open>add_in\<close> is the store inside
  the array (the table's own values are all below 6, lemma \<open>direction_axes_in_range\<close>).
  \<open>add_at\<close> is the store at a computed index. A store outside the six cells is undefined
  in C++: the model stops there with a fault that names the index, the increment and
  the array as it was, and says nothing about what the program does afterwards.
\<close>

datatype fault = StoreOutside nat real vector6d_t

definition add_in :: "nat \<Rightarrow> real \<Rightarrow> vector6d_t \<Rightarrow> vector6d_t" where
  "add_in k d p = p[k := p ! k + d]"

definition add_at :: "nat \<Rightarrow> real \<Rightarrow> vector6d_t \<Rightarrow> fault + vector6d_t" where
  "add_at k d p = (if k < 6 then Inr (p[k := p ! k + d]) else Inl (StoreOutside k d p))"

text \<open>The four corners of layer \<open>i\<close>, in the order of the inner loop.\<close>

definition corner_point :: "axes \<Rightarrow> vector6d_t \<Rightarrow> real \<Rightarrow> real \<Rightarrow> nat \<Rightarrow> vector6d_t" where
  "corner_point ax center_pose layer_z_offset half_w k =
     (let p = center_pose;
          p = add_in (ax_h ax) layer_z_offset p;
          d_w1 = fst (corner_signs ! k) * half_w;
          d_w2 = snd (corner_signs ! k) * half_w;
          p = add_in (ax_w1 ax) d_w1 p;
          p = add_in (ax_w2 ax) d_w2 p
      in p[3 := center_pose ! 3, 4 := center_pose ! 4, 5 := center_pose ! 5])"

definition layer_points :: "axes \<Rightarrow> vector6d_t \<Rightarrow> int \<Rightarrow> real \<Rightarrow> real \<Rightarrow> real \<Rightarrow> int \<Rightarrow> vector6d_t list" where
  "layer_points ax center_pose layers base_width_m top_width_m height_m i =
     (let ratio = (if layers > 1 then real_of_int i / real_of_int (layers - 1) else 0.0);
          layer_z_offset = height_m * ratio * h_sign ax;
          current_width = base_width_m - (base_width_m - top_width_m) * ratio;
          half_w = current_width / 2.0
      in map (corner_point ax center_pose layer_z_offset half_w) [0, 1, 2, 3])"

function build_targets ::
  "axes \<Rightarrow> vector6d_t \<Rightarrow> int \<Rightarrow> real \<Rightarrow> real \<Rightarrow> real \<Rightarrow> int \<Rightarrow> vector6d_t list \<Rightarrow> vector6d_t list" where
  "build_targets ax center_pose layers base_width_m top_width_m height_m i targets =
     (if i < layers then
        build_targets ax center_pose layers base_width_m top_width_m height_m (i + 1)
          (targets @ layer_points ax center_pose layers base_width_m top_width_m height_m i)
      else targets)"
  by pat_completeness auto
termination
  by (relation "measure (\<lambda>(ax, c, layers, b, t, h, i, targets). nat (layers - i))") auto

text \<open>
  The dither pose of target \<open>i\<close> (counted from 0), or the fault of the store
  \<^verbatim>\<open>p_dither[ax_r2 + 1] += ...\<close>. The last store is \<^verbatim>\<open>p_dither[2] += 0.0001\<close>.
\<close>

definition dither_pose :: "axes \<Rightarrow> int \<Rightarrow> real \<Rightarrow> nat \<Rightarrow> vector6d_t \<Rightarrow> fault + vector6d_t" where
  "dither_pose ax layers tilt_angle i target =
     (let layer_idx = i div 4;
          corner_idx = i mod 4;
          p_dither = target;
          ratio = (if layers > 1 then real layer_idx / real_of_int (layers - 1) else 0.0);
          tilt_magnitude = (tilt_angle / 57.29578) * (1.0 - ratio * 0.6);
          sign_w1 = fst (corner_signs ! corner_idx);
          sign_w2 = snd (corner_signs ! corner_idx);
          sign_modifier = (if corner_idx = 1 \<or> corner_idx = 3 then - 1.0 else 1.0);
          p_dither = add_in (ax_r1 ax) (- sign_w2 * tilt_magnitude * sign_modifier) p_dither;
          p_dither = add_in (ax_r2 ax) (- sign_w1 * tilt_magnitude * sign_modifier) p_dither
      in case add_at (ax_r2 ax + 1)
                ((if corner_idx mod 2 = 0 then 2.0 else - 2.0) * (1.0 / 57.29578)) p_dither of
           Inl f \<Rightarrow> Inl f
         | Inr p_dither \<Rightarrow> Inr (p_dither[2 := p_dither ! 2 + 0.0001]))"

text \<open>
  One pass of the execution loop for target \<open>i\<close>: the base move and its wait, then the
  dither pose; when that computation faults the pass ends with the fault, otherwise the
  dither move, the row, the capture call and the restore move follow.
\<close>

definition pyramid_visit ::
  "environment \<Rightarrow> axes \<Rightarrow> int \<Rightarrow> real \<Rightarrow> vector6d_t list \<Rightarrow> nat \<Rightarrow> run_state \<Rightarrow> fault + run_state" where
  "pyramid_visit e ax layers tilt_angle targets i s =
     (let point_idx = i + 1;
          s = log_msg (ProcessingPoint point_idx (length targets)) s;
          script = MoveL (targets ! i) MOVE_ACCEL MOVE_SPEED;
          s = sendScript script s;
          (timeout, s) = wait_arrival e (targets ! i) 200 s
      in case dither_pose ax layers tilt_angle i (targets ! i) of
           Inl f \<Rightarrow> Inl f
         | Inr p_dither \<Rightarrow>
             (let s = log_msg (Text '' - Adjusting Orientation...'') s;
                  s = sendScript (MoveL p_dither 0.5 0.1) s;
                  (timeout, s) = wait_dither e p_dither 50 s;
                  (current_pose, s) = get_current_pose_m_rad e s;
                  s = s\<lparr>data_lines := data_lines s @ [(point_idx, current_pose)]\<rparr>;
                  s = log_msg (PointData point_idx current_pose) s;
                  s = log_msg (Text ''Triggering Capture...'') s;
                  s = trigger_capture e ''Capture error: '' point_idx s;
                  s = log_msg (Text '' - Restoring...'') s;
                  s = sendScript script s;
                  (timeout, s) = wait_arrival e (targets ! i) 50 s
              in Inr s))"

function pyramid_loop ::
  "environment \<Rightarrow> axes \<Rightarrow> int \<Rightarrow> real \<Rightarrow> vector6d_t list \<Rightarrow> nat \<Rightarrow> run_state \<Rightarrow> fault + run_state" where
  "pyramid_loop e ax layers tilt_angle targets i s =
     (if i < length targets then
        (case pyramid_visit e ax layers tilt_angle targets i s of
           Inl f \<Rightarrow> Inl f
         | Inr s' \<Rightarrow> pyramid_loop e ax layers tilt_angle targets (i + 1) s')
      else Inr s)"
  by pat_completeness auto
termination
  by (relation "measure (\<lambda>(e, ax, layers, tilt, targets, i, s). length targets - i)") auto

definition run_3d_calibration ::
  "int \<Rightarrow> real \<Rightarrow> real \<Rightarrow> real \<Rightarrow> real \<Rightarrow> string \<Rightarrow> environment \<Rightarrow> run_state \<Rightarrow> fault + run_state" where
  "run_3d_calibration layers base_width top_width height tilt_angle direction e s =
     (if \<not> dashboard_set e \<or> \<not> primary_set e
      then Inr (log_msg (Text ''Error: Not connected (nullptr check)'') s)
      else if \<not> powerOn_ok e then Inr (log_msg (Text ''Failed to power on'') s)
      else if \<not> brakeRelease_ok e then Inr (log_msg (Text ''Failed to release brake'') s)
      else
        let s1 = log_msg (Text ''[C++] Starting 3D Pyramid Calibration...'') s;
            s2 = log_msg (PyramidInfo layers base_width top_width height tilt_angle direction) s1;
            (center_pose, s3) = get_current_pose_m_rad e s2;
            base_width_m = base_width / 1000.0;
            top_width_m = top_width / 1000.0;
            height_m = height / 1000.0;
            ax = direction_axes direction;
            targets = build_targets ax center_pose layers base_width_m top_width_m height_m 0 []
        in case pyramid_loop e ax layers tilt_angle targets 0 s3 of
             Inl f \<Rightarrow> Inl f
           | Inr s4 \<Rightarrow>
               (let filename = ''workspace/calibration_3d_data.txt'';
                    s5 = (if outfile_opens e
                          then log_msg (Text (''3D Calibration data saved to: '' @ filename))
                                 (s4\<lparr>outfile := Some (filename, data_lines s4)\<rparr>)
                          else log_msg (Text (''Failed to open file: '' @ filename)) s4);
                    s6 = log_msg (Text ''Calibration finished. Returning to center...'') s5
                in Inr (sendScript (MoveL center_pose 0.5 0.2) s6)))"

section \<open>Notions used to state the properties\<close>

text \<open>
  The matrix of the half turn about a unit axis \<open>k\<close>, \<open>2 k k\<^sup>T - I\<close>, as its three columns;
  what it means for three columns to form a rotation matrix; and two matrices agreeing
  to within \<open>eps\<close> in every entry.
\<close>

definition rot180 :: "Vec3 \<Rightarrow> Vec3 \<times> Vec3 \<times> Vec3" where
  "rot180 k =
     (Vec3 (2 * vx k * vx k - 1) (2 * vy k * vx k) (2 * vz k * vx k),
      Vec3 (2 * vx k * vy k) (2 * vy k * vy k - 1) (2 * vz k * vy k),
      Vec3 (2 * vx k * vz k) (2 * vy k * vz k) (2 * vz k * vz k - 1))"

definition orthonormal :: "Vec3 \<Rightarrow> Vec3 \<Rightarrow> Vec3 \<Rightarrow> bool" where
  "orthonormal X Y Z \<longleftrightarrow>
     dot X X = 1 \<and> dot Y Y = 1 \<and> dot Z Z = 1 \<and> dot X Y = 0 \<and> dot X Z = 0 \<and> dot Y Z = 0
     \<and> cross X Y = Z"

definition entries_within :: "real \<Rightarrow> Vec3 \<times> Vec3 \<times> Vec3 \<Rightarrow> Vec3 \<times> Vec3 \<times> Vec3 \<Rightarrow> bool" where
  "entries_within eps M N =
     (case (M, N) of ((X, Y, Z), (X', Y', Z')) \<Rightarrow>
        \<bar>vx X - vx X'\<bar> \<le> eps \<and> \<bar>vy X - vy X'\<bar> \<le> eps \<and> \<bar>vz X - vz X'\<bar> \<le> eps \<and>
        \<bar>vx Y - vx Y'\<bar> \<le> eps \<and> \<bar>vy Y - vy Y'\<bar> \<le> eps \<and> \<bar>vz Y - vz Y'\<bar> \<le> eps \<and>
        \<bar>vx Z - vx Z'\<bar> \<le> eps \<and> \<bar>vy Z - vy Z'\<bar> \<le> eps \<and> \<bar>vz Z - vz Z'\<bar> \<le> eps)"

text \<open>
  The pose the provider reports on its \<open>k\<close>-th call after conversion to metres and radians,
  and whether that pose is within the translation tolerance of a target. \<open>wait_outcome\<close>
  reads the value of \<^verbatim>\<open>timeout\<close> after a wait loop the way the grid run does
  (\<^verbatim>\<open>if (timeout <= 0)\<close>).
\<close>

definition reported :: "environment \<Rightarrow> nat \<Rightarrow> vector6d_t" where
  "reported e k = fst (get_current_pose_m_rad e (initial_state\<lparr>pose_calls := k\<rparr>))"

definition in_tolerance :: "environment \<Rightarrow> vector6d_t \<Rightarrow> nat \<Rightarrow> bool" where
  "in_tolerance e target k \<longleftrightarrow> sqrt (dist_sq (reported e k) target) < 0.002"

datatype wait_result = Converged | TimedOut

definition wait_outcome :: "int \<Rightarrow> wait_result" where
  "wait_outcome timeout = (if timeout \<le> 0 then TimedOut else Converged)"

text \<open>A provider that is one metre off for two calls and at the origin from the third on.\<close>

definition mock_env :: environment where
  "mock_env =
     \<lparr>dashboard_set = True, primary_set = True, powerOn_ok = True, brakeRelease_ok = True,
      capture_callback = None,
      get_pose_callback = Some (\<lambda>n. if n < 2 then [1000, 0, 0, 0, 0, 0] else [0, 0, 0, 0, 0, 0]),
      outfile_opens = True\<rparr>"

section \<open>Notions used to state and prove the properties of the runs\<close>

text \<open>
  The wait loops change nothing of the state but the number of calls made to the pose
  provider, and what they do depends on that number only. \<open>at_call k\<close> is a state in
  which \<open>k\<close> calls were made; the next four functions read, from such a state, the call
  count after one pose read and the results of the wait loops.
\<close>

definition at_call :: "nat \<Rightarrow> run_state" where
  "at_call k = initial_state\<lparr>pose_calls := k\<rparr>"

definition next_call :: "environment \<Rightarrow> nat \<Rightarrow> nat" where
  "next_call e k = pose_calls (snd (get_current_pose_m_rad e (at_call k)))"

definition arrival_timeout :: "environment \<Rightarrow> vector6d_t \<Rightarrow> int \<Rightarrow> nat \<Rightarrow> int" where
  "arrival_timeout e target timeout k = fst (wait_arrival e target timeout (at_call k))"

definition arrival_calls :: "environment \<Rightarrow> vector6d_t \<Rightarrow> int \<Rightarrow> nat \<Rightarrow> nat" where
  "arrival_calls e target timeout k = pose_calls (snd (wait_arrival e target timeout (at_call k)))"

definition dither_calls :: "environment \<Rightarrow> vector6d_t \<Rightarrow> int \<Rightarrow> nat \<Rightarrow> nat" where
  "dither_calls e p_dither timeout k = pose_calls (snd (wait_dither e p_dither timeout (at_call k)))"

text \<open>
  Two states agree on everything the robot and the data file see: calls made, scripts
  sent, rows recorded and file written. They may differ in the log and in the list of
  capture calls.
\<close>

definition same_motion :: "run_state \<Rightarrow> run_state \<Rightarrow> bool" where
  "same_motion s t \<longleftrightarrow>
     pose_calls s = pose_calls t \<and> scripts s = scripts t \<and> data_lines s = data_lines t
     \<and> outfile s = outfile t"

text \<open>The four checks that precede both runs.\<close>

definition robot_ready :: "environment \<Rightarrow> bool" where
  "robot_ready e \<longleftrightarrow> dashboard_set e \<and> primary_set e \<and> powerOn_ok e \<and> brakeRelease_ok e"

text \<open>
  The pieces of the two runs: the state and centre pose after the opening log lines and
  the first pose read, the targets built from that centre, and the state after the point
  loop.
\<close>

definition grid_prelude :: "environment \<Rightarrow> run_state \<Rightarrow> vector6d_t \<times> run_state" where
  "grid_prelude e s =
     get_current_pose_m_rad e
       (log_msg (Text ''Using External Pose Data from Python (RTSI Bypass)'')
          (log_msg (Text ''[C++] Starting 9-Point Calibration (YOZ Plane, Lens X+)...'') s))"

definition grid_run_loop :: "environment \<Rightarrow> run_state \<Rightarrow> run_state" where
  "grid_run_loop e s =
     grid_loop e (grid_points (fst (grid_prelude e s))) 0 (snd (grid_prelude e s))"

definition pyramid_prelude ::
  "int \<Rightarrow> real \<Rightarrow> real \<Rightarrow> real \<Rightarrow> real \<Rightarrow> string \<Rightarrow> environment \<Rightarrow> run_state \<Rightarrow> vector6d_t \<times> run_state" where
  "pyramid_prelude layers base_width top_width height tilt_angle direction e s =
     get_current_pose_m_rad e
       (log_msg (PyramidInfo layers base_width top_width height tilt_angle direction)
          (log_msg (Text ''[C++] Starting 3D Pyramid Calibration...'') s))"

definition pyramid_targets ::
  "int \<Rightarrow> real \<Rightarrow> real \<Rightarrow> real \<Rightarrow> real \<Rightarrow> string \<Rightarrow> environment \<Rightarrow> run_state \<Rightarrow> vector6d_t list" where
  "pyramid_targets layers base_width top_width height tilt_angle direction e s =
     build_targets (direction_axes direction)
       (fst (pyramid_prelude layers base_width top_width height tilt_angle direction e s))
       layers (base_width / 1000.0) (top_width / 1000.0) (height / 1000.0) 0 []"

definition pyramid_run_loop ::
  "int \<Rightarrow> real \<Rightarrow> real \<Rightarrow> real \<Rightarrow> real \<Rightarrow> string \<Rightarrow> environment \<Rightarrow> run_state \<Rightarrow> fault + run_state" where
  "pyramid_run_loop layers base_width top_width height tilt_angle direction e s =
     pyramid_loop e (direction_axes direction) layers tilt_angle
       (pyramid_targets layers base_width top_width height tilt_angle direction e s) 0
       (snd (pyramid_prelude layers base_width top_width height tilt_angle direction e s))"

text \<open>
  The rows a run is to hold, computed from the answers of the pose provider alone: one
  row for every point the run reaches, with the point id and the pose the provider
  reports at the call made for that row, which is the first call after the arrival wait
  of the point (grid) or after its dither wait (pyramid). The grid stops at the first
  point whose wait runs out; the counts passed along are the calls made so far.
\<close>

function grid_rows :: "environment \<Rightarrow> vector6d_t list \<Rightarrow> nat \<Rightarrow> nat \<Rightarrow> (nat \<times> vector6d_t) list" where
  "grid_rows e points i k =
     (if i < length points then
        (if arrival_timeout e (points ! i) 100 k \<le> 0 then []
         else (i + 1, reported e (arrival_calls e (points ! i) 100 k))
              # grid_rows e points (i + 1) (next_call e (arrival_calls e (points ! i) 100 k)))
      else [])"
  by pat_completeness auto
termination
  by (relation "measure (\<lambda>(e, points, i, k). length points - i)") auto

function pyramid_rows ::
  "environment \<Rightarrow> axes \<Rightarrow> int \<Rightarrow> real \<Rightarrow> vector6d_t list \<Rightarrow> nat \<Rightarrow> nat \<Rightarrow> (nat \<times> vector6d_t) list" where
  "pyramid_rows e ax layers tilt_angle targets i k =
     (if i < length targets then
        (case dither_pose ax layers tilt_angle i (targets ! i) of
           Inl f \<Rightarrow> []
         | Inr p_dither \<Rightarrow>
             (i + 1, reported e
                (dither_calls e p_dither 50 (arrival_calls e (targets ! i) 200 k)))
             # pyramid_rows e ax layers tilt_angle targets (i + 1)
                 (arrival_calls e (targets ! i) 50
                    (next_call e
                       (dither_calls e p_dither 50 (arrival_calls e (targets ! i) 200 k)))))
      else [])"
  by pat_completeness auto
termination
  by (relation "measure (\<lambda>(e, ax, layers, tilt, targets, i, k). length targets - i)") auto

text \<open>
  The pose provider never yields a usable pose: it is absent, or each of its answers has
  fewer than six values.
\<close>

definition pose_unavailable :: "environment \<Rightarrow> bool" where
  "pose_unavailable e \<longleftrightarrow>
     (case get_pose_callback e of None \<Rightarrow> True | Some f \<Rightarrow> \<forall>n. length (f n) < 6)"

text \<open>
  Environments for the examples. \<open>throw_env\<close>: the capture callback throws at point 2 and
  the provider moves one millimetre along x with every call, never near a target.
  \<open>track_env\<close>: the same callback, and a provider that is at the grid point being visited
  (two calls per point) and reports its call number as rx in degrees. \<open>stall_env\<close>: a
  provider that reports the centre, then stays at the first grid point. \<open>null_env\<close>: no
  provider. \<open>short_env\<close>: a provider that answers with three values.
\<close>

definition throw_env :: environment where
  "throw_env =
     \<lparr>dashboard_set = True, primary_set = True, powerOn_ok = True, brakeRelease_ok = True,
      capture_callback = Some (\<lambda>idx. if idx = 2 then Some ''camera offline'' else None),
      get_pose_callback = Some (\<lambda>n. [real n, 0, 0, 0, 0, 0]),
      outfile_opens = True\<rparr>"

definition track_env :: environment where
  "track_env =
     \<lparr>dashboard_set = True, primary_set = True, powerOn_ok = True, brakeRelease_ok = True,
      capture_callback = Some (\<lambda>idx. if idx = 2 then Some ''camera offline'' else None),
      get_pose_callback =
        Some (\<lambda>n. if n = 0 then [0, 0, 0, 0, 0, 0]
                   else [0, (real (((n - 1) div 2) mod 3) - 1) * 50,
                         (real (((n - 1) div 2) div 3) - 1) * 50, real n, 0, 0]),
      outfile_opens = True\<rparr>"

definition stall_env :: environment where
  "stall_env =
     \<lparr>dashboard_set = True, primary_set = True, powerOn_ok = True, brakeRelease_ok = True,
      capture_callback = None,
      get_pose_callback = Some (\<lambda>n. if n = 0 then [0, 0, 0, 0, 0, 0] else [0, - 50, - 50, 0, 0, 0]),
      outfile_opens = True\<rparr>"

definition null_env :: environment where
  "null_env =
     \<lparr>dashboard_set = True, primary_set = True, powerOn_ok = True, brakeRelease_ok = True,
      capture_callback = None, get_pose_callback = None, outfile_opens = True\<rparr>"

definition short_env :: environment where
  "short_env =
     \<lparr>dashboard_set = True, primary_set = True, powerOn_ok = True, brakeRelease_ok = True,
      capture_callback = None, get_pose_callback = Some (\<lambda>n. [1, 2, 3]), outfile_opens = True\<rparr>"

section \<open>Pose mathematics: the two conversions\<close>

declare wait_arrival.simps [simp del] wait_dither.simps [simp del] grid_loop.simps [simp del]
  pyramid_loop.simps [simp del] build_targets.simps [simp del]
  grid_rows.simps [simp del] pyramid_rows.simps [simp del]

lemma sqrt_half_pi: "sqrt (0 * 0 + 0 * 0 + pi / 2 * (pi / 2)) = pi / 2"
  by (rule real_sqrt_unique) (simp_all add: power2_eq_square)

lemma quarter_turn_rotvec: "matrixToRotVec (Vec3 0 1 0) (Vec3 (-1) 0 0) (Vec3 0 0 1) = [0, 0, pi / 2]"
  by (simp add: matrixToRotVec_def normalize_vec_def length_vec_def Let_def)

lemma quarter_turn_matrix: "rotVecToMatrix 0 0 (pi / 2) = (Vec3 0 (-1) 0, Vec3 1 0 0, Vec3 0 0 1)"
proof -
  have "\<not> pi / 2 < (0.000001::real)" using pi_ge_two by simp
  then show ?thesis
    unfolding rotVecToMatrix_def sqrt_half_pi by (simp add: Let_def)
qed

text \<open>
  C3. The claim: for an orthonormal rotation matrix with trace strictly between
  \<open>-1 + \<epsilon>\<close> and \<open>3 - \<epsilon>\<close>, converting to a rotation vector and back reproduces the matrix
  to within 1e-6 in every entry. At the quarter turn about the z axis (columns
  \<open>(0,1,0)\<close>, \<open>(-1,0,0)\<close>, \<open>(0,0,1)\<close>, trace 1) the code does not: \<^verbatim>\<open>matrixToRotVec\<close> reads
  its arguments as columns and returns \<open>(0, 0, \<pi>/2)\<close>, and \<^verbatim>\<open>rotVecToMatrix\<close> writes the
  rows of the Rodrigues matrix into \<open>X\<close>, \<open>Y\<close>, \<open>Z\<close>, so the round trip yields the transposed
  matrix, two away from the input in the entries \<open>X.y\<close> and \<open>Y.x\<close>.
\<close>

theorem roundtrip_quarter_turn_transposed:
  "orthonormal (Vec3 0 1 0) (Vec3 (- 1) 0 0) (Vec3 0 0 1)
   \<and> vx (Vec3 0 1 0) + vy (Vec3 (- 1) 0 0) + vz (Vec3 0 0 1) = 1
   \<and> roundtrip (Vec3 0 1 0) (Vec3 (- 1) 0 0) (Vec3 0 0 1)
       = (Vec3 0 (- 1) 0, Vec3 1 0 0, Vec3 0 0 1)
   \<and> \<not> entries_within 0.000001 (roundtrip (Vec3 0 1 0) (Vec3 (- 1) 0 0) (Vec3 0 0 1))
         (Vec3 0 1 0, Vec3 (- 1) 0 0, Vec3 0 0 1)"
proof -
  have o: "orthonormal (Vec3 0 1 0) (Vec3 (- 1) 0 0) (Vec3 0 0 1)"
    by (simp add: orthonormal_def dot_def cross_def)
  have r: "roundtrip (Vec3 0 1 0) (Vec3 (- 1) 0 0) (Vec3 0 0 1)
       = (Vec3 0 (- 1) 0, Vec3 1 0 0, Vec3 0 0 1)"
    by (simp add: roundtrip_def quarter_turn_rotvec quarter_turn_matrix)
  have n: "\<not> entries_within 0.000001 (Vec3 0 (- 1) 0, Vec3 1 0 0, Vec3 0 0 1)
         (Vec3 0 1 0, Vec3 (- 1) 0 0, Vec3 0 0 1)"
    by (simp add: entries_within_def)
  show ?thesis
    unfolding r using o n by simp
qed

lemma sqrt_16_25: "sqrt (16 / 25) = 4 / 5"
  by (rule real_sqrt_unique) (simp_all add: power2_eq_square)

lemma half_turn_rotvec: "matrixToRotVec (Vec3 (7/25) (24/25) 0) (Vec3 (24/25) (-7/25) 0) (Vec3 0 0 (-1))
   = [4 / 5 / sqrt (52 / 25) * 3.141592653589793, 6 / 5 / sqrt (52 / 25) * 3.141592653589793, 0]"
proof -
  define l where "l = sqrt (52 / 25)"
  have l: "length_vec (Vec3 (4 / 5) (6 / 5) 0) = l"
    by (simp add: length_vec_def l_def)
  have "1 \<le> l" unfolding l_def by (rule real_sqrt_ge_one) simp
  then have big: "\<not> l < 0.000000001" by simp
  have n: "normalize_vec (Vec3 (4 / 5) (6 / 5) 0) = Vec3 (4 / 5 / l) (6 / 5 / l) 0"
    using big by (simp add: normalize_vec_def l Let_def)
  have "matrixToRotVec (Vec3 (7/25) (24/25) 0) (Vec3 (24/25) (-7/25) 0) (Vec3 0 0 (-1))
   = [4 / 5 / l * 3.141592653589793, 6 / 5 / l * 3.141592653589793, 0]"
    by (simp add: matrixToRotVec_def Let_def sqrt_16_25 n)
  then show ?thesis by (simp only: l_def)
qed

text \<open>
  C4. The claim: for a unit axis \<open>k\<close>, the rotation vector recovered from the half turn
  about \<open>k\<close> is parallel to \<open>k\<close>. At \<open>k = (4/5, 3/5, 0)\<close> the code is in the branch
  \<^verbatim>\<open>trace <= -1 + 1e-6\<close> with \<open>r11\<close> the largest diagonal entry and divides the symmetric
  sums by \<open>2 sqrt((r11 + 1) / 2)\<close>; the axis before normalisation is \<open>(4/5, 6/5, 0)\<close>, which
  is not a multiple of \<open>k\<close>: the cross product of the result with \<open>k\<close> is not zero.
\<close>

theorem half_turn_axis_not_parallel:
  "length_vec (Vec3 (4 / 5) (3 / 5) 0) = 1
   \<and> rot180 (Vec3 (4 / 5) (3 / 5) 0)
       = (Vec3 (7 / 25) (24 / 25) 0, Vec3 (24 / 25) (- 7 / 25) 0, Vec3 0 0 (- 1))
   \<and> (case rot180 (Vec3 (4 / 5) (3 / 5) 0) of (X, Y, Z) \<Rightarrow>
         cross (Vec3 (matrixToRotVec X Y Z ! 0) (matrixToRotVec X Y Z ! 1) (matrixToRotVec X Y Z ! 2))
           (Vec3 (4 / 5) (3 / 5) 0) \<noteq> Vec3 0 0 0)"
proof -
  define l :: real where "l = sqrt (52 / 25)"
  define th :: real where "th = 3.141592653589793"
  have "0 < l" unfolding l_def by simp
  have "0 < th" unfolding th_def by simp
  have r: "rot180 (Vec3 (4 / 5) (3 / 5) 0)
       = (Vec3 (7 / 25) (24 / 25) 0, Vec3 (24 / 25) (- 7 / 25) 0, Vec3 0 0 (- 1))"
    by (simp add: rot180_def)
  have "length_vec (Vec3 (4 / 5) (3 / 5) 0) = sqrt 1"
    unfolding length_vec_def by (rule arg_cong [where f = sqrt]) simp
  then have u: "length_vec (Vec3 (4 / 5) (3 / 5) 0) = 1" by simp
  have m: "matrixToRotVec (Vec3 (7 / 25) (24 / 25) 0) (Vec3 (24 / 25) (- 7 / 25) 0) (Vec3 0 0 (- 1))
     = [4 / 5 / l * th, 6 / 5 / l * th, 0]"
    unfolding l_def th_def by (rule half_turn_rotvec)
  have "4 / 5 / l * th * (3 / 5) - 6 / 5 / l * th * (4 / 5) = - (12 / 25) * (th / l)"
    by (simp add: field_simps)
  moreover have "th / l \<noteq> 0" using \<open>0 < l\<close> \<open>0 < th\<close> by simp
  ultimately have z: "4 / 5 / l * th * (3 / 5) - 6 / 5 / l * th * (4 / 5) \<noteq> 0" by simp
  have c: "cross (Vec3 (4 / 5 / l * th) (6 / 5 / l * th) 0) (Vec3 (4 / 5) (3 / 5) 0) \<noteq> Vec3 0 0 0"
    unfolding cross_def Vec3.sel Vec3.inject using z by blast
  show ?thesis
    unfolding r prod.case m using u c by (simp only: nth_Cons_0 nth_Cons_Suc One_nat_def numeral_2_eq_2 simp_thms)
qed

section \<open>Target generation\<close>

text \<open>
  C5. With the 50 mm step of \<^verbatim>\<open>GRID_STEP\<close> and the centre pose \<open>(0,0,0,0,0,0)\<close> the grid has
  nine points; x and the three orientation components are those of the centre, and the
  y and z offsets run over -50, 0, 50 mm with y varying fastest and z slowest.
\<close>

theorem grid_points_zero_center: "grid_points zero_pose =
   [ [0, - 0.05, - 0.05, 0, 0, 0], [0, 0, - 0.05, 0, 0, 0], [0, 0.05, - 0.05, 0, 0, 0],
    [0, - 0.05, 0, 0, 0, 0], [0, 0, 0, 0, 0, 0], [0, 0.05, 0, 0, 0, 0],
    [0, - 0.05, 0.05, 0, 0, 0], [0, 0, 0.05, 0, 0, 0], [0, 0.05, 0.05, 0, 0, 0]]
  \<and> map (\<lambda>p. (p ! 1 * 1000, p ! 2 * 1000)) (grid_points zero_pose) =
   [(- 50, - 50), (0, - 50), (50, - 50), (- 50, 0), (0, 0), (50, 0), (- 50, 50), (0, 50), (50, 50)]"
  by (simp add: grid_points_def zero_pose_def GRID_STEP_def Let_def)

lemma length_grid_points: "length (grid_points c) = 9"
  by (simp add: grid_points_def Let_def)

lemma length_layer_points: "length (layer_points ax c layers b t h i) = 4"
  by (simp add: layer_points_def Let_def)

lemma length_build_targets:
  "length (build_targets ax c layers b t h i targets) = length targets + 4 * nat (layers - i)"
proof (induction ax c layers b t h i targets rule: build_targets.induct)
  case (1 ax c layers b t h i targets)
  show ?case
  proof (cases "i < layers")
    case True
    then have "nat (layers - i) = Suc (nat (layers - (i + 1)))" by simp
    with True 1 show ?thesis
      by (subst build_targets.simps) (simp add: length_layer_points)
  next
    case False
    then show ?thesis by (subst build_targets.simps) simp
  qed
qed

text \<open>
  C6. The grid always has nine points, and for \<open>layers \<ge> 1\<close> the pyramid has
  \<open>layers * 4\<close> targets, whatever the direction string, the centre and the dimensions.
\<close>

theorem target_counts: "length (grid_points c) = 9 \<and>
   (1 \<le> layers \<longrightarrow> length (build_targets (direction_axes direction) c layers b t h 0 []) = nat (layers * 4))"
  by (simp add: length_grid_points length_build_targets nat_mult_distrib)

theorem target_counts_witness:
  "(1::int) \<le> 3 \<and> length (grid_points zero_pose) = 9
   \<and> length (build_targets (direction_axes ''X-'') zero_pose 3 0.1 0.05 0.05 0 []) = 12"
proof -
  have "(1::int) \<le> 3" by simp
  moreover have "nat (3 * 4) = 12" by simp
  ultimately show ?thesis
    using target_counts [of zero_pose 3 "''X-''" "0.1" "0.05" "0.05"] by (simp only: simp_thms)
qed

section \<open>The dither pose\<close>

lemma direction_axes_cases:
  "direction_axes d \<in>
     {\<lparr>ax_h = 2, ax_w1 = 0, ax_w2 = 1, ax_r1 = 3, ax_r2 = 4, h_sign = 1\<rparr>,
      \<lparr>ax_h = 2, ax_w1 = 0, ax_w2 = 1, ax_r1 = 3, ax_r2 = 4, h_sign = - 1\<rparr>,
      \<lparr>ax_h = 1, ax_w1 = 0, ax_w2 = 2, ax_r1 = 3, ax_r2 = 5, h_sign = 1\<rparr>,
      \<lparr>ax_h = 1, ax_w1 = 0, ax_w2 = 2, ax_r1 = 3, ax_r2 = 5, h_sign = - 1\<rparr>,
      \<lparr>ax_h = 0, ax_w1 = 1, ax_w2 = 2, ax_r1 = 4, ax_r2 = 5, h_sign = 1\<rparr>,
      \<lparr>ax_h = 0, ax_w1 = 1, ax_w2 = 2, ax_r1 = 4, ax_r2 = 5, h_sign = - 1\<rparr>}"
  by (simp add: direction_axes_def)

lemma direction_axes_in_range:
  "ax_h (direction_axes d) < 3 \<and> ax_w1 (direction_axes d) < 3 \<and> ax_w2 (direction_axes d) < 3
   \<and> 3 \<le> ax_r1 (direction_axes d) \<and> ax_r1 (direction_axes d) < 6
   \<and> 3 \<le> ax_r2 (direction_axes d) \<and> ax_r2 (direction_axes d) < 6"
  using direction_axes_cases [of d] by auto

lemma direction_axes_defined:
  "ax_r2 (direction_axes d) < 5 \<longleftrightarrow> d \<notin> {''X+'', ''X-'', ''Y+'', ''Y-''}"
  by (simp add: direction_axes_def)

lemma direction_axes_defined_height:
  "ax_r2 (direction_axes d) < 5 \<Longrightarrow> ax_h (direction_axes d) = 2"
  using direction_axes_cases [of d] by auto

lemma dither_pose_fault:
  "\<not> ax_r2 ax < 5 \<Longrightarrow>
     \<exists>q. dither_pose ax layers tilt_angle i target =
       Inl (StoreOutside (ax_r2 ax + 1)
              ((if i mod 4 mod 2 = 0 then 2 else - 2) * (1 / 57.29578)) q)"
  by (simp add: dither_pose_def add_at_def Let_def)

lemma dither_pose_defined:
  "ax_r2 ax < 5 \<Longrightarrow> \<exists>p. dither_pose ax layers tilt_angle i target = Inr p"
  by (simp add: dither_pose_def add_at_def Let_def)

lemma take3_add_in: "3 \<le> k \<Longrightarrow> take 3 (add_in k d p) = take 3 p"
  by (simp add: add_in_def)

lemma take3_bump: "take 3 (q[2 := q ! 2 + c]) = (take 3 q)[2 := take 3 q ! 2 + c]"
  by (simp add: take_update_swap)

lemma take3_dither:
  assumes "3 \<le> ax_r1 ax" and "3 \<le> ax_r2 ax"
    and "dither_pose ax layers tilt_angle i target = Inr p"
  shows "take 3 p = take 3 (target[2 := target ! 2 + 0.0001])"
proof -
  define q where "q = add_in (ax_r2 ax)
      (- fst (corner_signs ! (i mod 4)) *
         (tilt_angle / 57.29578 *
           (1.0 - (if layers > 1 then real (i div 4) / real_of_int (layers - 1) else 0.0) * 0.6)) *
         (if i mod 4 = 1 \<or> i mod 4 = 3 then - 1.0 else 1.0))
      (add_in (ax_r1 ax)
        (- snd (corner_signs ! (i mod 4)) *
           (tilt_angle / 57.29578 *
             (1.0 - (if layers > 1 then real (i div 4) / real_of_int (layers - 1) else 0.0) * 0.6)) *
           (if i mod 4 = 1 \<or> i mod 4 = 3 then - 1.0 else 1.0))
        target)"
  define c :: real where "c = (if i mod 4 mod 2 = 0 then 2.0 else - 2.0) * (1.0 / 57.29578)"
  have q3: "take 3 q = take 3 target"
    unfolding q_def using assms(1,2) by (simp only: take3_add_in)
  have d: "dither_pose ax layers tilt_angle i target =
     (case add_at (ax_r2 ax + 1) c q of Inl f \<Rightarrow> Inl f
      | Inr r \<Rightarrow> Inr (r[2 := r ! 2 + 0.0001]))"
    unfolding dither_pose_def Let_def q_def c_def ..
  from assms(3) obtain r where r: "add_at (ax_r2 ax + 1) c q = Inr r"
    and p: "p = r[2 := r ! 2 + 0.0001]"
    unfolding d by (auto split: sum.splits)
  from r have "r = q[ax_r2 ax + 1 := q ! (ax_r2 ax + 1) + c]"
    by (simp add: add_at_def split: if_splits)
  then have "take 3 r = take 3 q" using assms(2) by simp
  then show ?thesis
    unfolding p take3_bump q3 [symmetric] by simp
qed

lemma dither_pose_translation:
  assumes "dither_pose (direction_axes d) layers tilt_angle i target = Inr p"
  shows "take 3 p = take 3 (target[ax_h (direction_axes d) :=
           target ! ax_h (direction_axes d) + 0.0001])"
proof -
  have "ax_r2 (direction_axes d) < 5"
    using assms dither_pose_fault [of "direction_axes d" layers tilt_angle i target] by force
  then have h: "ax_h (direction_axes d) = 2" by (rule direction_axes_defined_height)
  have "3 \<le> ax_r1 (direction_axes d)" "3 \<le> ax_r2 (direction_axes d)"
    using direction_axes_in_range [of d] by simp_all
  then show ?thesis
    unfolding h using assms by (rule take3_dither)
qed

text \<open>
  C1. The claim: for each of the six directions the plus-or-minus 2 degree perturbation is
  stored in one of the rotation components (indices 3 to 5) and nowhere outside the
  pose. The store is \<^verbatim>\<open>p_dither[ax_r2 + 1] += ...\<close>; for \<^verbatim>\<open>Y+\<close>, \<^verbatim>\<open>Y-\<close>, \<^verbatim>\<open>X+\<close> and \<^verbatim>\<open>X-\<close> the
  table sets \<open>ax_r2 = 5\<close>, so the index is 6, one past the last element of the array:
  the dither computation ends in the fault of that store. With no tilt and the zero pose
  as target, the array is still the zero pose when the store is made: no rotation
  component carries the perturbation.
\<close>

theorem dither_perturbation_outside_pose:
  "ax_r2 (direction_axes ''Y+'') + 1 = 6
   \<and> dither_pose (direction_axes ''Y+'') 1 0 0 [0, 0, 0, 0, 0, 0]
       = Inl (StoreOutside 6 (2 / 57.29578) [0, 0, 0, 0, 0, 0])
   \<and> (\<exists>q. dither_pose (direction_axes ''Y+'') layers tilt_angle i target
       = Inl (StoreOutside 6 ((if i mod 4 mod 2 = 0 then 2 else - 2) * (1 / 57.29578)) q))
   \<and> (\<exists>q. dither_pose (direction_axes ''Y-'') layers tilt_angle i target
       = Inl (StoreOutside 6 ((if i mod 4 mod 2 = 0 then 2 else - 2) * (1 / 57.29578)) q))
   \<and> (\<exists>q. dither_pose (direction_axes ''X+'') layers tilt_angle i target
       = Inl (StoreOutside 6 ((if i mod 4 mod 2 = 0 then 2 else - 2) * (1 / 57.29578)) q))
   \<and> (\<exists>q. dither_pose (direction_axes ''X-'') layers tilt_angle i target
       = Inl (StoreOutside 6 ((if i mod 4 mod 2 = 0 then 2 else - 2) * (1 / 57.29578)) q))"
  by (simp add: dither_pose_def direction_axes_def add_at_def add_in_def corner_signs_def Let_def)

text \<open>
  C2. The claim: for every supported direction and every target the dither pose has the
  translation of its base point but for the 0.0001 m shift on the height axis. For
  \<^verbatim>\<open>Y+\<close> (as for \<^verbatim>\<open>Y-\<close>, \<^verbatim>\<open>X+\<close>, \<^verbatim>\<open>X-\<close>) the code does not get that far: the store outside
  the array (C1) comes before the shift, so the first target of a one-layer pyramid
  around the origin has no dither pose. Wherever the computation yields a pose, which it
  does for \<^verbatim>\<open>Z+\<close> and \<^verbatim>\<open>Z-\<close>, the claim holds: the three translation components are those
  of the target with 0.0001 m added on the height axis of the direction.
\<close>

theorem dither_translation_where_defined:
  "(let ax = direction_axes ''Y+'';
        targets = build_targets ax zero_pose 1 0.1 0.05 0.05 0 []
    in targets ! 0 = [- 0.05, 0, - 0.05, 0, 0, 0]
       \<and> dither_pose ax 1 0 0 (targets ! 0)
           = Inl (StoreOutside 6 (2 / 57.29578) [- 0.05, 0, - 0.05, 0, 0, 0]))
   \<and> (\<exists>p. dither_pose (direction_axes ''Z+'') layers tilt_angle i target = Inr p)
   \<and> (\<exists>p. dither_pose (direction_axes ''Z-'') layers tilt_angle i target = Inr p)
   \<and> (dither_pose (direction_axes d) layers tilt_angle i target = Inr p \<longrightarrow>
        take 3 p = take 3 (target[ax_h (direction_axes d) :=
                     target ! ax_h (direction_axes d) + 0.0001]))"
proof (intro conjI impI)
  have ax: "direction_axes ''Y+'' = \<lparr>ax_h = 1, ax_w1 = 0, ax_w2 = 2, ax_r1 = 3, ax_r2 = 5, h_sign = 1\<rparr>"
    by (simp add: direction_axes_def)
  have t: "build_targets (direction_axes ''Y+'') zero_pose 1 0.1 0.05 0.05 0 []
     = layer_points (direction_axes ''Y+'') zero_pose 1 0.1 0.05 0.05 0"
    by (simp add: build_targets.simps)
  have t0: "layer_points (direction_axes ''Y+'') zero_pose 1 0.1 0.05 0.05 0 ! 0
     = [- 0.05, 0, - 0.05, 0, 0, 0]"
    by (simp add: ax layer_points_def corner_point_def add_in_def corner_signs_def zero_pose_def Let_def)
  have f: "dither_pose (direction_axes ''Y+'') 1 0 0 [- 0.05, 0, - 0.05, 0, 0, 0]
     = Inl (StoreOutside 6 (2 / 57.29578) [- 0.05, 0, - 0.05, 0, 0, 0])"
    by (simp add: ax dither_pose_def add_at_def add_in_def corner_signs_def Let_def)
  show "let ax = direction_axes ''Y+'';
        targets = build_targets ax zero_pose 1 0.1 0.05 0.05 0 []
    in targets ! 0 = [- 0.05, 0, - 0.05, 0, 0, 0]
       \<and> dither_pose ax 1 0 0 (targets ! 0)
           = Inl (StoreOutside 6 (2 / 57.29578) [- 0.05, 0, - 0.05, 0, 0, 0])"
    unfolding Let_def t t0 f by simp
  show "\<exists>p. dither_pose (direction_axes ''Z+'') layers tilt_angle i target = Inr p"
    by (rule dither_pose_defined) (simp add: direction_axes_def)
  show "\<exists>p. dither_pose (direction_axes ''Z-'') layers tilt_angle i target = Inr p"
    by (rule dither_pose_defined) (simp add: direction_axes_def)
next
  assume "dither_pose (direction_axes d) layers tilt_angle i target = Inr p"
  then show "take 3 p = take 3 (target[ax_h (direction_axes d) :=
                     target ! ax_h (direction_axes d) + 0.0001])"
    by (rule dither_pose_translation)
qed

theorem dither_translation_where_defined_witness:
  "dither_pose (direction_axes ''Z-'') 1 0 0 [- 0.05, - 0.05, 0, 0, 0, 0]
     = Inr [- 0.05, - 0.05, 0.0001, 0, 0, 2 / 57.29578]
   \<and> ax_h (direction_axes ''Z-'') = 2
   \<and> take 3 [- 0.05, - 0.05, 0.0001, 0, 0, 2 / 57.29578 :: real]
       = take 3 ([- 0.05, - 0.05, 0, 0, 0, 0][2 := [- 0.05, - 0.05, 0, 0, 0, 0] ! 2 + 0.0001])"
proof -
  have ax: "direction_axes ''Z-'' = \<lparr>ax_h = 2, ax_w1 = 0, ax_w2 = 1, ax_r1 = 3, ax_r2 = 4, h_sign = - 1\<rparr>"
    by (simp add: direction_axes_def)
  have d: "dither_pose (direction_axes ''Z-'') 1 0 0 [- 0.05, - 0.05, 0, 0, 0, 0]
     = Inr [- 0.05, - 0.05, 0.0001, 0, 0, 2 / 57.29578]"
    by (simp add: ax dither_pose_def add_at_def add_in_def corner_signs_def Let_def)
  have h: "ax_h (direction_axes ''Z-'') = 2" by (simp add: ax)
  from dither_translation_where_defined [where d = "''Z-''" and layers = 1 and tilt_angle = 0
      and i = 0 and target = "[- 0.05, - 0.05, 0, 0, 0, 0]"
      and p = "[- 0.05, - 0.05, 0.0001, 0, 0, 2 / 57.29578]"]
  show ?thesis
    using d unfolding h by (simp only: simp_thms)
qed

section \<open>The wait loop\<close>

lemma get_pose_fst:
  "fst (get_current_pose_m_rad e s) = reported e (pose_calls s)"
  by (simp add: get_current_pose_m_rad_def reported_def Let_def split: option.splits)

lemma get_pose_snd_Some:
  "get_pose_callback e = Some f \<Longrightarrow>
     snd (get_current_pose_m_rad e s) = s\<lparr>pose_calls := Suc (pose_calls s)\<rparr>"
  by (simp add: get_current_pose_m_rad_def Let_def)

lemma wait_arrival_step:
  "wait_arrival e target timeout s =
     (if timeout > 0 then
        if in_tolerance e target (pose_calls s) then (timeout, snd (get_current_pose_m_rad e s))
        else wait_arrival e target (timeout - 1) (snd (get_current_pose_m_rad e s))
      else (timeout, s))"
  by (subst wait_arrival.simps)
     (simp add: in_tolerance_def get_pose_fst [symmetric] split_def Let_def)

lemma wait_arrival_first:
  assumes "get_pose_callback e = Some f"
    and "\<forall>j<k. \<not> in_tolerance e target (pose_calls s + j)"
    and "in_tolerance e target (pose_calls s + k)"
    and "int k < n"
  shows "wait_arrival e target n s = (n - int k, s\<lparr>pose_calls := pose_calls s + k + 1\<rparr>)"
  using assms(2-4)
proof (induction k arbitrary: n s)
  case 0
  then show ?case
    by (subst wait_arrival_step) (simp add: get_pose_snd_Some [OF assms(1)])
next
  case (Suc k)
  let ?s = "s\<lparr>pose_calls := Suc (pose_calls s)\<rparr>"
  have a: "\<not> in_tolerance e target (pose_calls s)" using Suc.prems(1) by force
  have b: "\<forall>j<k. \<not> in_tolerance e target (pose_calls ?s + j)"
    using Suc.prems(1) by (auto dest: spec [where x = "Suc j" for j])
  have c: "in_tolerance e target (pose_calls ?s + k)" using Suc.prems(2) by simp
  have d: "int k < n - 1" using Suc.prems(3) by simp
  have "wait_arrival e target (n - 1) ?s = (n - 1 - int k, ?s\<lparr>pose_calls := pose_calls ?s + k + 1\<rparr>)"
    by (rule Suc.IH [OF b c d])
  with a Suc.prems(3) show ?case
    by (subst wait_arrival_step) (simp add: get_pose_snd_Some [OF assms(1)])
qed

lemma wait_arrival_never:
  assumes "get_pose_callback e = Some f"
    and "\<forall>j<k. \<not> in_tolerance e target (pose_calls s + j)"
  shows "wait_arrival e target (int k) s = (0, s\<lparr>pose_calls := pose_calls s + k\<rparr>)"
  using assms(2)
proof (induction k arbitrary: s)
  case 0
  then show ?case by (subst wait_arrival_step) simp
next
  case (Suc k)
  let ?s = "s\<lparr>pose_calls := Suc (pose_calls s)\<rparr>"
  have a: "\<not> in_tolerance e target (pose_calls s)" using Suc.prems(1) by force
  have b: "\<forall>j<k. \<not> in_tolerance e target (pose_calls ?s + j)"
    using Suc.prems(1) by (auto dest: spec [where x = "Suc j" for j])
  have "wait_arrival e target (int k) ?s = (0, ?s\<lparr>pose_calls := pose_calls ?s + k\<rparr>)"
    by (rule Suc.IH [OF b])
  with a show ?case
    by (subst wait_arrival_step) (simp add: get_pose_snd_Some [OF assms(1)])
qed

text \<open>
  C7. With a provider present: if the third poll is the first within the 0.002 m
  translation tolerance, the loop started with 10 attempts leaves as converged after
  exactly 3 polls; if the first two polls are out of tolerance, the loop started with 2
  attempts ends timed out after 2 polls. In general the loop leaves as converged at the
  first poll within tolerance, after \<open>k + 1\<close> polls when \<open>k\<close> polls failed before it and
  \<open>k\<close> is below the number of attempts, and times out after \<open>k\<close> polls when all \<open>k\<close>
  attempts fail.
\<close>

theorem wait_arrival_polls:
  "get_pose_callback e = Some f \<longrightarrow>
     (\<not> in_tolerance e target (pose_calls s) \<and> \<not> in_tolerance e target (pose_calls s + 1)
        \<and> in_tolerance e target (pose_calls s + 2) \<longrightarrow>
        wait_outcome (fst (wait_arrival e target 10 s)) = Converged
        \<and> pose_calls (snd (wait_arrival e target 10 s)) = pose_calls s + 3)
   \<and> (\<not> in_tolerance e target (pose_calls s) \<and> \<not> in_tolerance e target (pose_calls s + 1) \<longrightarrow>
        wait_outcome (fst (wait_arrival e target 2 s)) = TimedOut
        \<and> pose_calls (snd (wait_arrival e target 2 s)) = pose_calls s + 2)
   \<and> ((\<forall>j<k. \<not> in_tolerance e target (pose_calls s + j))
        \<and> in_tolerance e target (pose_calls s + k) \<and> int k < n \<longrightarrow>
        wait_outcome (fst (wait_arrival e target n s)) = Converged
        \<and> pose_calls (snd (wait_arrival e target n s)) = pose_calls s + k + 1)
   \<and> ((\<forall>j<k. \<not> in_tolerance e target (pose_calls s + j)) \<longrightarrow>
        wait_outcome (fst (wait_arrival e target (int k) s)) = TimedOut
        \<and> pose_calls (snd (wait_arrival e target (int k) s)) = pose_calls s + k)"
proof (intro impI conjI)
  assume f: "get_pose_callback e = Some f"
  {
    assume a: "\<not> in_tolerance e target (pose_calls s) \<and> \<not> in_tolerance e target (pose_calls s + 1)
        \<and> in_tolerance e target (pose_calls s + 2)"
    then have "\<forall>j<2. \<not> in_tolerance e target (pose_calls s + j)"
      by (simp add: less_Suc_eq numeral_2_eq_2)
    with a have w: "wait_arrival e target 10 s = (10 - int 2, s\<lparr>pose_calls := pose_calls s + 2 + 1\<rparr>)"
      by (intro wait_arrival_first [OF f]) simp_all
    show "wait_outcome (fst (wait_arrival e target 10 s)) = Converged"
      by (simp add: w wait_outcome_def)
    show "pose_calls (snd (wait_arrival e target 10 s)) = pose_calls s + 3"
      by (simp add: w)
  }
  {
    assume a: "\<not> in_tolerance e target (pose_calls s) \<and> \<not> in_tolerance e target (pose_calls s + 1)"
    then have "\<forall>j<2. \<not> in_tolerance e target (pose_calls s + j)"
      by (simp add: less_Suc_eq numeral_2_eq_2)
    then have "wait_arrival e target (int 2) s = (0, s\<lparr>pose_calls := pose_calls s + 2\<rparr>)"
      by (rule wait_arrival_never [OF f])
    then have w: "wait_arrival e target 2 s = (0, s\<lparr>pose_calls := pose_calls s + 2\<rparr>)"
      by simp
    show "wait_outcome (fst (wait_arrival e target 2 s)) = TimedOut"
      by (simp add: w wait_outcome_def)
    show "pose_calls (snd (wait_arrival e target 2 s)) = pose_calls s + 2"
      by (simp add: w)
  }
  {
    assume a: "(\<forall>j<k. \<not> in_tolerance e target (pose_calls s + j))
        \<and> in_tolerance e target (pose_calls s + k) \<and> int k < n"
    then have w: "wait_arrival e target n s = (n - int k, s\<lparr>pose_calls := pose_calls s + k + 1\<rparr>)"
      by (intro wait_arrival_first [OF f]) simp_all
    show "wait_outcome (fst (wait_arrival e target n s)) = Converged"
      using a by (simp add: w wait_outcome_def)
    show "pose_calls (snd (wait_arrival e target n s)) = pose_calls s + k + 1"
      by (simp add: w)
  }
  {
    assume a: "\<forall>j<k. \<not> in_tolerance e target (pose_calls s + j)"
    then have w: "wait_arrival e target (int k) s = (0, s\<lparr>pose_calls := pose_calls s + k\<rparr>)"
      by (rule wait_arrival_never [OF f])
    show "wait_outcome (fst (wait_arrival e target (int k) s)) = TimedOut"
      by (simp add: w wait_outcome_def)
    show "pose_calls (snd (wait_arrival e target (int k) s)) = pose_calls s + k"
      by (simp add: w)
  }
qed

lemma mock_in_tolerance:
  "in_tolerance mock_env zero_pose k \<longleftrightarrow> 2 \<le> k"
  by (simp add: in_tolerance_def reported_def get_current_pose_m_rad_def mock_env_def
      initial_state_def zero_pose_def dist_sq_def Let_def)

theorem wait_arrival_polls_witness:
  "get_pose_callback mock_env \<noteq> None
   \<and> \<not> in_tolerance mock_env zero_pose 0 \<and> \<not> in_tolerance mock_env zero_pose 1
   \<and> in_tolerance mock_env zero_pose 2
   \<and> wait_outcome (fst (wait_arrival mock_env zero_pose 10 initial_state)) = Converged
   \<and> pose_calls (snd (wait_arrival mock_env zero_pose 10 initial_state)) = 3
   \<and> wait_outcome (fst (wait_arrival mock_env zero_pose 2 initial_state)) = TimedOut
   \<and> pose_calls (snd (wait_arrival mock_env zero_pose 2 initial_state)) = 2"
proof -
  have f: "get_pose_callback mock_env = Some (\<lambda>n. if n < 2 then [1000, 0, 0, 0, 0, 0] else [0, 0, 0, 0, 0, 0])"
    by (simp add: mock_env_def)
  have z: "pose_calls initial_state = 0" by (simp add: initial_state_def)
  show ?thesis
    using wait_arrival_polls [of mock_env _ zero_pose initial_state 2 10] f
    by (simp add: mock_in_tolerance z)
qed

section \<open>The wait loops as functions of the call count\<close>

lemma get_pose_eq:
  "get_current_pose_m_rad e s =
     (reported e (pose_calls s), s\<lparr>pose_calls := next_call e (pose_calls s)\<rparr>)"
  by (simp add: get_current_pose_m_rad_def reported_def next_call_def at_call_def Let_def
      initial_state_def split: option.splits)

lemma wait_arrival_rel:
  "pose_calls s = pose_calls t \<Longrightarrow>
     fst (wait_arrival e target n s) = fst (wait_arrival e target n t)
     \<and> snd (wait_arrival e target n s) = s\<lparr>pose_calls := pose_calls (snd (wait_arrival e target n t))\<rparr>"
proof (induction "nat n" arbitrary: n s t)
  case 0
  then show ?case by (simp add: wait_arrival_step [of e target n])
next
  case (Suc m)
  let ?s = "s\<lparr>pose_calls := next_call e (pose_calls s)\<rparr>"
  let ?t = "t\<lparr>pose_calls := next_call e (pose_calls t)\<rparr>"
  have m: "m = nat (n - 1)" using Suc.hyps(2) by simp
  have p: "pose_calls ?s = pose_calls ?t" using Suc.prems by simp
  note ih = Suc.hyps(1) [OF m p]
  have pos: "n > 0" using Suc.hyps(2) by simp
  show ?case
  proof (cases "in_tolerance e target (pose_calls s)")
    case True
    with pos Suc.prems show ?thesis
      by (simp add: wait_arrival_step [of e target n] get_pose_eq)
  next
    case False
    with pos Suc.prems ih show ?thesis
      by (simp add: wait_arrival_step [of e target n] get_pose_eq)
  qed
qed

lemma wait_arrival_eq:
  "wait_arrival e target n s =
     (arrival_timeout e target n (pose_calls s),
      s\<lparr>pose_calls := arrival_calls e target n (pose_calls s)\<rparr>)"
proof -
  have "pose_calls s = pose_calls (at_call (pose_calls s))"
    by (simp add: at_call_def)
  from wait_arrival_rel [OF this, of e target n] show ?thesis
    by (simp add: arrival_timeout_def arrival_calls_def prod_eq_iff)
qed

lemma wait_dither_step:
  "wait_dither e p timeout s =
     (if timeout > 0 then
        if sqrt (dist_sq (reported e (pose_calls s)) p) < 0.002
           \<and> sqrt (rot_sq (reported e (pose_calls s)) p) < 0.05
        then (timeout, s\<lparr>pose_calls := next_call e (pose_calls s)\<rparr>)
        else wait_dither e p (timeout - 1) (s\<lparr>pose_calls := next_call e (pose_calls s)\<rparr>)
      else (timeout, s))"
  by (subst wait_dither.simps) (simp add: get_pose_eq)

lemma wait_dither_rel:
  "pose_calls s = pose_calls t \<Longrightarrow>
     snd (wait_dither e p n s) = s\<lparr>pose_calls := pose_calls (snd (wait_dither e p n t))\<rparr>"
proof (induction "nat n" arbitrary: n s t)
  case 0
  then show ?case by (simp add: wait_dither_step [of e p n])
next
  case (Suc m)
  let ?s = "s\<lparr>pose_calls := next_call e (pose_calls s)\<rparr>"
  let ?t = "t\<lparr>pose_calls := next_call e (pose_calls t)\<rparr>"
  have m: "m = nat (n - 1)" using Suc.hyps(2) by simp
  have p: "pose_calls ?s = pose_calls ?t" using Suc.prems by simp
  note ih = Suc.hyps(1) [OF m p]
  have pos: "n > 0" using Suc.hyps(2) by simp
  from pos Suc.prems ih show ?case
    by (simp add: wait_dither_step [of e p n])
qed

lemma wait_dither_eq:
  "snd (wait_dither e p n s) = s\<lparr>pose_calls := dither_calls e p n (pose_calls s)\<rparr>"
proof -
  have "pose_calls s = pose_calls (at_call (pose_calls s))"
    by (simp add: at_call_def)
  from wait_dither_rel [OF this, of e p n] show ?thesis
    by (simp add: dither_calls_def)
qed

lemma reported_cong:
  "get_pose_callback e' = get_pose_callback e \<Longrightarrow> reported e' k = reported e k"
  by (simp add: reported_def get_current_pose_m_rad_def)

lemma next_call_cong:
  "get_pose_callback e' = get_pose_callback e \<Longrightarrow> next_call e' k = next_call e k"
  by (simp add: next_call_def get_current_pose_m_rad_def)

lemma wait_arrival_cong:
  "get_pose_callback e' = get_pose_callback e \<Longrightarrow>
     wait_arrival e' target n s = wait_arrival e target n s"
proof (induction "nat n" arbitrary: n s)
  case 0
  then show ?case
    by (simp add: wait_arrival_step [of e target n] wait_arrival_step [of e' target n])
next
  case (Suc m)
  have m: "m = nat (n - 1)" using Suc.hyps(2) by simp
  note ih = Suc.hyps(1) [OF m Suc.prems]
  show ?case
    by (simp add: wait_arrival_step [of e target n] wait_arrival_step [of e' target n] ih
        get_pose_eq in_tolerance_def reported_cong [OF Suc.prems] next_call_cong [OF Suc.prems])
qed

lemma wait_dither_cong:
  "get_pose_callback e' = get_pose_callback e \<Longrightarrow>
     wait_dither e' p n s = wait_dither e p n s"
proof (induction "nat n" arbitrary: n s)
  case 0
  then show ?case
    by (simp add: wait_dither_step [of e p n] wait_dither_step [of e' p n])
next
  case (Suc m)
  have m: "m = nat (n - 1)" using Suc.hyps(2) by simp
  note ih = Suc.hyps(1) [OF m Suc.prems]
  show ?case
    by (simp add: wait_dither_step [of e p n] wait_dither_step [of e' p n] ih
        reported_cong [OF Suc.prems] next_call_cong [OF Suc.prems])
qed

lemma arrival_cong:
  assumes "get_pose_callback e' = get_pose_callback e"
  shows "arrival_timeout e' target n k = arrival_timeout e target n k"
    and "arrival_calls e' target n k = arrival_calls e target n k"
    and "dither_calls e' target n k = dither_calls e target n k"
  by (simp_all add: arrival_timeout_def arrival_calls_def dither_calls_def
      wait_arrival_cong [OF assms] wait_dither_cong [OF assms])

lemma trigger_capture_frame:
  "pose_calls (trigger_capture e prefix idx s) = pose_calls s"
  "scripts (trigger_capture e prefix idx s) = scripts s"
  "data_lines (trigger_capture e prefix idx s) = data_lines s"
  "outfile (trigger_capture e prefix idx s) = outfile s"
  by (simp_all add: trigger_capture_def log_msg_def Let_def split: option.splits)

lemma grid_move_eq:
  "grid_move e p idx s =
     (arrival_timeout e p 100 (pose_calls s),
      s\<lparr>pose_calls := arrival_calls e p 100 (pose_calls s),
        log_lines := log_lines s @ [MovingToPoint idx],
        scripts := scripts s @ [MoveL p MOVE_ACCEL MOVE_SPEED]\<rparr>)"
  by (simp add: grid_move_def wait_arrival_eq log_msg_def sendScript_def)

lemma grid_record_frame:
  "pose_calls (grid_record e idx s) = next_call e (pose_calls s)"
  "scripts (grid_record e idx s) = scripts s"
  "data_lines (grid_record e idx s) = data_lines s @ [(idx, reported e (pose_calls s))]"
  "outfile (grid_record e idx s) = outfile s"
  by (simp_all add: grid_record_def get_pose_eq log_msg_def trigger_capture_frame Let_def)

section \<open>The point loops\<close>

lemma same_motion_refl: "same_motion s s"
  by (simp add: same_motion_def)

lemma grid_loop_done: "\<not> i < length points \<Longrightarrow> grid_loop e points i s = s"
  by (subst grid_loop.simps) simp

lemma grid_loop_timeout:
  "i < length points \<Longrightarrow> fst (grid_move e (points ! i) (i + 1) s) \<le> 0 \<Longrightarrow>
     grid_loop e points i s =
       log_msg (Text ''Timeout waiting for robot to reach point'')
         (snd (grid_move e (points ! i) (i + 1) s))"
  by (subst grid_loop.simps) (simp add: split_def Let_def)

lemma grid_loop_next:
  "i < length points \<Longrightarrow> \<not> fst (grid_move e (points ! i) (i + 1) s) \<le> 0 \<Longrightarrow>
     grid_loop e points i s =
       grid_loop e points (i + 1) (grid_record e (i + 1) (snd (grid_move e (points ! i) (i + 1) s)))"
  by (subst grid_loop.simps) (simp add: split_def Let_def)

lemma grid_move_same:
  assumes "get_pose_callback e' = get_pose_callback e" and "same_motion s t"
  shows "fst (grid_move e' p idx s) = fst (grid_move e p idx t)"
    and "same_motion (snd (grid_move e' p idx s)) (snd (grid_move e p idx t))"
  using assms(2) by (simp_all add: grid_move_eq same_motion_def arrival_cong [OF assms(1)])

lemma grid_record_same:
  assumes "get_pose_callback e' = get_pose_callback e" and "same_motion s t"
  shows "same_motion (grid_record e' idx s) (grid_record e idx t)"
  using assms(2)
  by (simp add: same_motion_def grid_record_frame reported_cong [OF assms(1)]
      next_call_cong [OF assms(1)])

lemma log_msg_same: "same_motion s t \<Longrightarrow> same_motion (log_msg m s) (log_msg m' t)"
  by (simp add: same_motion_def log_msg_def)

lemma grid_loop_same:
  assumes "get_pose_callback e' = get_pose_callback e"
  shows "same_motion s t \<Longrightarrow> same_motion (grid_loop e' points i s) (grid_loop e points i t)"
proof (induction "length points - i" arbitrary: i s t)
  case 0
  then show ?case by (simp add: grid_loop_done)
next
  case (Suc n)
  then have i: "i < length points" and n: "n = length points - (i + 1)" by simp_all
  note f = grid_move_same(1) [OF assms Suc.prems, of "points ! i" "i + 1"]
  note m = grid_move_same(2) [OF assms Suc.prems, of "points ! i" "i + 1"]
  show ?case
  proof (cases "fst (grid_move e (points ! i) (i + 1) t) \<le> 0")
    case True
    with f have "fst (grid_move e' (points ! i) (i + 1) s) \<le> 0" by simp
    then have f': "fst (grid_move e' (points ! i) (i + 1) s) \<le> 0" .
    show ?thesis
      unfolding grid_loop_timeout [OF i f'] grid_loop_timeout [OF i True]
      by (rule log_msg_same [OF m])
  next
    case False
    with f have f': "\<not> fst (grid_move e' (points ! i) (i + 1) s) \<le> 0" by simp
    show ?thesis
      unfolding grid_loop_next [OF i f'] grid_loop_next [OF i False]
      by (rule Suc.hyps(1) [OF n grid_record_same [OF assms m]])
  qed
qed

lemma run_calibration_ready:
  assumes "robot_ready e"
  shows "data_lines (run_calibration e s) = data_lines (grid_run_loop e s)"
    and "scripts (run_calibration e s) =
           scripts (grid_run_loop e s) @ [MoveL (fst (grid_prelude e s)) 0.5 0.2]"
    and "outfile (run_calibration e s) =
           (if outfile_opens e
            then Some (''workspace/calibration_data.txt'', data_lines (grid_run_loop e s))
            else outfile (grid_run_loop e s))"
    and "pose_calls (run_calibration e s) = pose_calls (grid_run_loop e s)"
    and "set (log_lines (grid_run_loop e s)) \<subseteq> set (log_lines (run_calibration e s))"
  using assms
  by (auto simp add: robot_ready_def run_calibration_def grid_run_loop_def grid_prelude_def
      split_def Let_def log_msg_def sendScript_def)

lemma run_not_ready:
  assumes "\<not> robot_ready e"
  shows "same_motion (run_calibration e s) s"
  using assms
  by (auto simp add: robot_ready_def run_calibration_def same_motion_def log_msg_def)

lemma robot_ready_capture [simp]: "robot_ready (e\<lparr>capture_callback := g\<rparr>) = robot_ready e"
  by (simp add: robot_ready_def)

lemma grid_run_loop_capture:
  "same_motion (grid_run_loop (e\<lparr>capture_callback := g\<rparr>) s) (grid_run_loop e s)"
proof -
  have c: "get_pose_callback (e\<lparr>capture_callback := g\<rparr>) = get_pose_callback e" by simp
  have p: "grid_prelude (e\<lparr>capture_callback := g\<rparr>) s = grid_prelude e s"
    by (simp add: grid_prelude_def get_pose_eq reported_cong [OF c] next_call_cong [OF c])
  show ?thesis
    unfolding grid_run_loop_def p by (rule grid_loop_same [OF c same_motion_refl])
qed

lemma run_calibration_capture:
  "same_motion (run_calibration (e\<lparr>capture_callback := g\<rparr>) s) (run_calibration e s)"
proof (cases "robot_ready e")
  case True
  then have r: "robot_ready (e\<lparr>capture_callback := g\<rparr>)" by simp
  have p: "grid_prelude (e\<lparr>capture_callback := g\<rparr>) s = grid_prelude e s"
    by (simp add: grid_prelude_def get_current_pose_m_rad_def)
  show ?thesis
    using grid_run_loop_capture [where e = e and g = g and s = s]
    by (simp add: same_motion_def run_calibration_ready [OF True] run_calibration_ready [OF r] p)
next
  case False
  then have r: "\<not> robot_ready (e\<lparr>capture_callback := g\<rparr>)" by simp
  show ?thesis
    using run_not_ready [OF False, of s] run_not_ready [OF r, of s]
    by (simp add: same_motion_def)
qed

lemma trigger_capture_log:
  "log_lines (trigger_capture e prefix idx s) =
     log_lines s @
       (case capture_callback e of
          None \<Rightarrow> []
        | Some g \<Rightarrow> (case g idx of None \<Rightarrow> [] | Some what \<Rightarrow> [Text (prefix @ what)]))"
  by (simp add: trigger_capture_def log_msg_def Let_def split: option.splits)

lemma wait_log [simp]:
  "log_lines (snd (wait_arrival e p n s)) = log_lines s"
  "log_lines (snd (wait_dither e p n s)) = log_lines s"
  by (simp_all add: wait_arrival_eq wait_dither_eq)

lemma grid_record_log:
  "log_lines (grid_record e idx s) =
     log_lines s @
       [PointData idx (reported e (pose_calls s)), Text ''Triggering Camera Capture (Callback)...''] @
       (case capture_callback e of
          None \<Rightarrow> []
        | Some g \<Rightarrow>
            (case g idx of None \<Rightarrow> [] | Some what \<Rightarrow> [Text (''Capture callback error: '' @ what)])) @
       [Text ''Capture Done.'']"
  by (simp add: grid_record_def get_pose_eq log_msg_def trigger_capture_log Let_def)

lemma grid_record_logs_error:
  "capture_callback e = Some c \<Longrightarrow> c idx = Some what \<Longrightarrow>
     Text (''Capture callback error: '' @ what) \<in> set (log_lines (grid_record e idx s))"
  by (subst grid_record_log) simp

section \<open>Timeout in the grid run\<close>

lemma tol_iff: "sqrt x < 0.002 \<longleftrightarrow> x < 0.000004"
proof -
  have "sqrt 0.000004 = (0.002::real)"
    by (rule real_sqrt_unique) (simp_all add: power2_eq_square)
  then have "sqrt x < 0.002 \<longleftrightarrow> sqrt x < sqrt 0.000004" by (simp only:)
  then show ?thesis by (simp only: real_sqrt_less_iff)
qed

lemma in_tolerance_iff: "in_tolerance e target k \<longleftrightarrow> dist_sq (reported e k) target < 0.000004"
  by (simp only: in_tolerance_def tol_iff)

lemma grid_loop_abort:
  assumes "i < length points" and "fst (grid_move e (points ! i) (i + 1) s) \<le> 0"
  shows "data_lines (grid_loop e points i s) = data_lines s"
    and "scripts (grid_loop e points i s) = scripts s @ [MoveL (points ! i) MOVE_ACCEL MOVE_SPEED]"
    and "captured (grid_loop e points i s) = captured s"
    and "log_lines (grid_loop e points i s) =
           log_lines s @ [MovingToPoint (i + 1), Text ''Timeout waiting for robot to reach point'']"
  unfolding grid_loop_timeout [OF assms]
  by (simp_all add: grid_move_eq log_msg_def)

text \<open>
  C9. If the wait for point \<open>i + 1\<close> of the grid loop ends with \<^verbatim>\<open>timeout <= 0\<close>, the loop
  stops there: the rows are those recorded before, the only script added is the move to
  that point, no capture call is made, and the log ends with the timeout line. With the
  robot ready and the file opening, the run then writes exactly the rows the loop left to
  \<^verbatim>\<open>workspace/calibration_data.txt\<close> and sends the return move.
\<close>

theorem grid_timeout_aborts_and_flushes:
  "(i < length points \<and> wait_outcome (fst (grid_move e (points ! i) (i + 1) s)) = TimedOut \<longrightarrow>
      data_lines (grid_loop e points i s) = data_lines s
    \<and> scripts (grid_loop e points i s) = scripts s @ [MoveL (points ! i) MOVE_ACCEL MOVE_SPEED]
    \<and> captured (grid_loop e points i s) = captured s
    \<and> log_lines (grid_loop e points i s) =
         log_lines s @ [MovingToPoint (i + 1), Text ''Timeout waiting for robot to reach point''])
   \<and> (robot_ready e \<and> outfile_opens e \<longrightarrow>
      data_lines (run_calibration e s0) = data_lines (grid_run_loop e s0)
    \<and> outfile (run_calibration e s0)
        = Some (''workspace/calibration_data.txt'', data_lines (grid_run_loop e s0))
    \<and> scripts (run_calibration e s0)
        = scripts (grid_run_loop e s0) @ [MoveL (fst (grid_prelude e s0)) 0.5 0.2])"
proof (intro conjI impI)
  assume a: "i < length points \<and> wait_outcome (fst (grid_move e (points ! i) (i + 1) s)) = TimedOut"
  then have i: "i < length points" and t: "fst (grid_move e (points ! i) (i + 1) s) \<le> 0"
    by (simp_all add: wait_outcome_def split: if_splits)
  show "data_lines (grid_loop e points i s) = data_lines s"
    by (rule grid_loop_abort(1) [OF i t])
  show "scripts (grid_loop e points i s) = scripts s @ [MoveL (points ! i) MOVE_ACCEL MOVE_SPEED]"
    by (rule grid_loop_abort(2) [OF i t])
  show "captured (grid_loop e points i s) = captured s"
    by (rule grid_loop_abort(3) [OF i t])
  show "log_lines (grid_loop e points i s) =
         log_lines s @ [MovingToPoint (i + 1), Text ''Timeout waiting for robot to reach point'']"
    by (rule grid_loop_abort(4) [OF i t])
next
  assume a: "robot_ready e \<and> outfile_opens e"
  then have r: "robot_ready e" and f: "outfile_opens e" by simp_all
  show "data_lines (run_calibration e s0) = data_lines (grid_run_loop e s0)"
    by (rule run_calibration_ready(1) [OF r])
  show "outfile (run_calibration e s0)
        = Some (''workspace/calibration_data.txt'', data_lines (grid_run_loop e s0))"
    using f by (simp add: run_calibration_ready(3) [OF r])
  show "scripts (run_calibration e s0)
        = scripts (grid_run_loop e s0) @ [MoveL (fst (grid_prelude e s0)) 0.5 0.2]"
    by (rule run_calibration_ready(2) [OF r])
qed

lemma stall_reported:
  "reported stall_env k = (if k = 0 then zero_pose else [0, - 0.05, - 0.05, 0, 0, 0])"
  by (simp add: reported_def get_current_pose_m_rad_def stall_env_def zero_pose_def Let_def)

lemma stall_next: "next_call stall_env k = Suc k"
  by (simp add: next_call_def get_current_pose_m_rad_def stall_env_def at_call_def Let_def)

lemma stall_callback:
  "get_pose_callback stall_env
     = Some (\<lambda>n. if n = 0 then [0, 0, 0, 0, 0, 0] else [0, - 50, - 50, 0, 0, 0])"
  by (simp add: stall_env_def)

lemma grid_points_zero_nth:
  "grid_points zero_pose ! 0 = [0, - 0.05, - 0.05, 0, 0, 0]"
  "grid_points zero_pose ! Suc 0 = [0, 0, - 0.05, 0, 0, 0]"
  by (simp_all add: grid_points_def zero_pose_def GRID_STEP_def Let_def)

lemma stall_first_arrives:
  "arrival_timeout stall_env (grid_points zero_pose ! 0) 100 (Suc 0) = 100"
  "arrival_calls stall_env (grid_points zero_pose ! 0) 100 (Suc 0) = 2"
proof -
  have t: "in_tolerance stall_env (grid_points zero_pose ! 0) (pose_calls (at_call (Suc 0)) + 0)"
    by (simp add: in_tolerance_iff stall_reported dist_sq_def at_call_def grid_points_zero_nth)
  have "wait_arrival stall_env (grid_points zero_pose ! 0) 100 (at_call (Suc 0))
      = (100 - int 0, at_call (Suc 0)\<lparr>pose_calls := pose_calls (at_call (Suc 0)) + 0 + 1\<rparr>)"
    by (rule wait_arrival_first [OF stall_callback _ t]) simp_all
  then show "arrival_timeout stall_env (grid_points zero_pose ! 0) 100 (Suc 0) = 100"
    and "arrival_calls stall_env (grid_points zero_pose ! 0) 100 (Suc 0) = 2"
    by (simp_all add: arrival_timeout_def arrival_calls_def at_call_def)
qed

lemma stall_second_times_out:
  "arrival_timeout stall_env (grid_points zero_pose ! Suc 0) 100 3 = 0"
proof -
  have t: "\<forall>j<100. \<not> in_tolerance stall_env (grid_points zero_pose ! Suc 0) (pose_calls (at_call 3) + j)"
    by (simp add: in_tolerance_iff stall_reported dist_sq_def at_call_def power2_eq_square
        grid_points_zero_nth)
  have "wait_arrival stall_env (grid_points zero_pose ! Suc 0) (int 100) (at_call 3)
      = (0, at_call 3\<lparr>pose_calls := pose_calls (at_call 3) + 100\<rparr>)"
    by (rule wait_arrival_never [OF stall_callback t])
  then show ?thesis
    by (simp add: arrival_timeout_def)
qed

lemma stall_prelude:
  "fst (grid_prelude stall_env initial_state) = zero_pose"
  "pose_calls (snd (grid_prelude stall_env initial_state)) = 1"
  "data_lines (snd (grid_prelude stall_env initial_state)) = []"
  "scripts (snd (grid_prelude stall_env initial_state)) = []"
  by (simp_all add: grid_prelude_def get_pose_eq stall_reported stall_next log_msg_def
      initial_state_def)

theorem grid_timeout_aborts_and_flushes_witness:
  "robot_ready stall_env \<and> outfile_opens stall_env \<and> 1 < length (grid_points zero_pose)
   \<and> wait_outcome (fst (grid_move stall_env (grid_points zero_pose ! 1) (1 + 1)
        (grid_record stall_env 1
           (snd (grid_move stall_env (grid_points zero_pose ! 0) 1
                   (snd (grid_prelude stall_env initial_state))))))) = TimedOut
   \<and> data_lines (run_calibration stall_env initial_state) = [(1, [0, - 0.05, - 0.05, 0, 0, 0])]
   \<and> outfile (run_calibration stall_env initial_state)
       = Some (''workspace/calibration_data.txt'', [(1, [0, - 0.05, - 0.05, 0, 0, 0])])
   \<and> scripts (run_calibration stall_env initial_state)
       = [MoveL [0, - 0.05, - 0.05, 0, 0, 0] MOVE_ACCEL MOVE_SPEED,
          MoveL [0, 0, - 0.05, 0, 0, 0] MOVE_ACCEL MOVE_SPEED,
          MoveL zero_pose 0.5 0.2]"
proof -
  define pts where "pts = grid_points zero_pose"
  define sa where "sa = snd (grid_prelude stall_env initial_state)"
  define sb where "sb = snd (grid_move stall_env (pts ! 0) 1 sa)"
  define sc where "sc = grid_record stall_env 1 sb"
  have r: "robot_ready stall_env" by (simp add: robot_ready_def stall_env_def)
  have f: "outfile_opens stall_env" by (simp add: stall_env_def)
  have l: "1 < length pts" by (simp add: pts_def length_grid_points)
  have l0: "0 < length pts" by (simp add: pts_def length_grid_points)
  have p0: "pts ! 0 = [0, - 0.05, - 0.05, 0, 0, 0]" and p1: "pts ! Suc 0 = [0, 0, - 0.05, 0, 0, 0]"
    by (simp_all only: pts_def grid_points_zero_nth)
  have m0: "\<not> fst (grid_move stall_env (pts ! 0) (0 + 1) sa) \<le> 0"
    by (simp add: grid_move_eq pts_def sa_def stall_prelude stall_first_arrives)
  have sb: "pose_calls sb = 2" "data_lines sb = []"
    "scripts sb = [MoveL (grid_points zero_pose ! 0) MOVE_ACCEL MOVE_SPEED]"
    by (simp_all add: sb_def grid_move_eq pts_def sa_def stall_prelude stall_first_arrives)
  have sc: "pose_calls sc = 3" "data_lines sc = [(1, [0, - 0.05, - 0.05, 0, 0, 0])]"
    "scripts sc = [MoveL (grid_points zero_pose ! 0) MOVE_ACCEL MOVE_SPEED]"
    by (simp_all add: sc_def grid_record_frame sb stall_next stall_reported)
  have m1: "wait_outcome (fst (grid_move stall_env (pts ! 1) (1 + 1) sc)) = TimedOut"
    by (simp add: grid_move_eq pts_def sc stall_second_times_out wait_outcome_def)
  have loop: "grid_run_loop stall_env initial_state = grid_loop stall_env pts 1 sc"
    unfolding grid_run_loop_def stall_prelude(1) pts_def [symmetric] sa_def [symmetric]
    using grid_loop_next [OF l0 m0] by (simp add: sb_def sc_def)
  have c: "fst (grid_prelude stall_env initial_state) = zero_pose" by (rule stall_prelude(1))
  from grid_timeout_aborts_and_flushes [where i = 1 and points = pts and e = stall_env and s = sc
      and ?s0.0 = initial_state]
  show ?thesis
    using r f l m1 unfolding pts_def [symmetric] sa_def [symmetric] sb_def [symmetric]
      sc_def [symmetric] loop c
    by (simp add: sc p1 grid_points_zero_nth)
qed

section \<open>The pyramid passes\<close>

lemma pyramid_visit_fault:
  "dither_pose ax layers tilt i (targets ! i) = Inl f \<Longrightarrow>
     pyramid_visit e ax layers tilt targets i s = Inl f"
  by (simp add: pyramid_visit_def split_def Let_def)

lemma pyramid_visit_frame:
  assumes "dither_pose ax layers tilt i (targets ! i) = Inr p"
  shows "pyramid_visit e ax layers tilt targets i s
           = Inr (projr (pyramid_visit e ax layers tilt targets i s))"
    and "pose_calls (projr (pyramid_visit e ax layers tilt targets i s)) =
           arrival_calls e (targets ! i) 50
             (next_call e (dither_calls e p 50 (arrival_calls e (targets ! i) 200 (pose_calls s))))"
    and "scripts (projr (pyramid_visit e ax layers tilt targets i s)) =
           scripts s @ [MoveL (targets ! i) MOVE_ACCEL MOVE_SPEED, MoveL p 0.5 0.1,
                        MoveL (targets ! i) MOVE_ACCEL MOVE_SPEED]"
    and "data_lines (projr (pyramid_visit e ax layers tilt targets i s)) =
           data_lines s @
             [(i + 1, reported e
                 (dither_calls e p 50 (arrival_calls e (targets ! i) 200 (pose_calls s))))]"
    and "outfile (projr (pyramid_visit e ax layers tilt targets i s)) = outfile s"
  using assms
  by (simp_all add: pyramid_visit_def split_def Let_def wait_arrival_eq wait_dither_eq
      get_pose_eq log_msg_def sendScript_def trigger_capture_frame)

lemma pyramid_visit_log:
  assumes "dither_pose ax layers tilt i (targets ! i) = Inr p"
  shows "log_lines (projr (pyramid_visit e ax layers tilt targets i s)) =
     log_lines s @
       [ProcessingPoint (i + 1) (length targets), Text '' - Adjusting Orientation...'',
        PointData (i + 1) (reported e
           (dither_calls e p 50 (arrival_calls e (targets ! i) 200 (pose_calls s)))),
        Text ''Triggering Capture...''] @
       (case capture_callback e of
          None \<Rightarrow> []
        | Some g \<Rightarrow> (case g (i + 1) of None \<Rightarrow> [] | Some what \<Rightarrow> [Text (''Capture error: '' @ what)])) @
       [Text '' - Restoring...'']"
  using assms
  by (simp add: pyramid_visit_def split_def Let_def wait_arrival_eq wait_dither_eq
      get_pose_eq log_msg_def sendScript_def trigger_capture_log cong: option.case_cong)

lemma pyramid_loop_done:
  "\<not> i < length targets \<Longrightarrow> pyramid_loop e ax layers tilt targets i s = Inr s"
  by (subst pyramid_loop.simps) simp

lemma pyramid_loop_next:
  "i < length targets \<Longrightarrow> pyramid_visit e ax layers tilt targets i s = Inr s' \<Longrightarrow>
     pyramid_loop e ax layers tilt targets i s = pyramid_loop e ax layers tilt targets (i + 1) s'"
  by (subst pyramid_loop.simps) simp

lemma pyramid_loop_fault:
  "i < length targets \<Longrightarrow> pyramid_visit e ax layers tilt targets i s = Inl f \<Longrightarrow>
     pyramid_loop e ax layers tilt targets i s = Inl f"
  by (subst pyramid_loop.simps) simp

lemma pyramid_visit_same:
  assumes "get_pose_callback e' = get_pose_callback e" and "same_motion s t"
  shows "rel_sum (=) same_motion (pyramid_visit e' ax layers tilt targets i s)
           (pyramid_visit e ax layers tilt targets i t)"
proof (cases "dither_pose ax layers tilt i (targets ! i)")
  case (Inl f)
  then show ?thesis by (simp add: pyramid_visit_fault)
next
  case (Inr p)
  note a = pyramid_visit_frame [OF Inr, of e' s] and b = pyramid_visit_frame [OF Inr, of e t]
  have "same_motion (projr (pyramid_visit e' ax layers tilt targets i s))
          (projr (pyramid_visit e ax layers tilt targets i t))"
    using assms(2)
    by (simp add: same_motion_def a(2-5) b(2-5) reported_cong [OF assms(1)]
        next_call_cong [OF assms(1)] arrival_cong [OF assms(1)])
  then show ?thesis
    by (subst a(1), subst b(1)) simp
qed

lemma pyramid_loop_same:
  assumes "get_pose_callback e' = get_pose_callback e"
  shows "same_motion s t \<Longrightarrow>
     rel_sum (=) same_motion (pyramid_loop e' ax layers tilt targets i s)
       (pyramid_loop e ax layers tilt targets i t)"
proof (induction "length targets - i" arbitrary: i s t)
  case 0
  then show ?case by (simp add: pyramid_loop_done)
next
  case (Suc n)
  then have i: "i < length targets" and n: "n = length targets - (i + 1)" by simp_all
  note v = pyramid_visit_same [OF assms Suc.prems, of ax layers tilt targets i]
  show ?case
  proof (cases "pyramid_visit e ax layers tilt targets i t")
    case (Inl f)
    with v have "pyramid_visit e' ax layers tilt targets i s = Inl f"
      by (cases "pyramid_visit e' ax layers tilt targets i s") simp_all
    with Inl i show ?thesis by (simp add: pyramid_loop_fault)
  next
    case (Inr t')
    with v obtain s' where s': "pyramid_visit e' ax layers tilt targets i s = Inr s'"
      and m: "same_motion s' t'"
      by (cases "pyramid_visit e' ax layers tilt targets i s") simp_all
    show ?thesis
      unfolding pyramid_loop_next [OF i s'] pyramid_loop_next [OF i Inr]
      by (rule Suc.hyps(1) [OF n m])
  qed
qed

section \<open>The rows of a run\<close>

lemma grid_rows_done: "\<not> i < length points \<Longrightarrow> grid_rows e points i k = []"
  by (subst grid_rows.simps) simp

lemma grid_rows_timeout:
  "i < length points \<Longrightarrow> arrival_timeout e (points ! i) 100 k \<le> 0 \<Longrightarrow> grid_rows e points i k = []"
  by (subst grid_rows.simps) simp

lemma grid_rows_next:
  "i < length points \<Longrightarrow> \<not> arrival_timeout e (points ! i) 100 k \<le> 0 \<Longrightarrow>
     grid_rows e points i k =
       (i + 1, reported e (arrival_calls e (points ! i) 100 k))
       # grid_rows e points (i + 1) (next_call e (arrival_calls e (points ! i) 100 k))"
  by (subst grid_rows.simps) simp

lemma pyramid_rows_done: "\<not> i < length targets \<Longrightarrow> pyramid_rows e ax layers tilt targets i k = []"
  by (subst pyramid_rows.simps) simp

lemma pyramid_rows_next:
  "i < length targets \<Longrightarrow> dither_pose ax layers tilt i (targets ! i) = Inr p \<Longrightarrow>
     pyramid_rows e ax layers tilt targets i k =
       (i + 1, reported e (dither_calls e p 50 (arrival_calls e (targets ! i) 200 k)))
       # pyramid_rows e ax layers tilt targets (i + 1)
           (arrival_calls e (targets ! i) 50
              (next_call e (dither_calls e p 50 (arrival_calls e (targets ! i) 200 k))))"
  by (subst pyramid_rows.simps) simp

lemma grid_move_fst: "fst (grid_move e p idx s) = arrival_timeout e p 100 (pose_calls s)"
  by (simp add: grid_move_eq)

lemma grid_pass_state:
  "pose_calls (grid_record e idx (snd (grid_move e p idx' s)))
     = next_call e (arrival_calls e p 100 (pose_calls s))"
  "data_lines (grid_record e idx (snd (grid_move e p idx' s)))
     = data_lines s @ [(idx, reported e (arrival_calls e p 100 (pose_calls s)))]"
  by (simp_all add: grid_record_frame grid_move_eq)

lemma grid_loop_rows:
  "data_lines (grid_loop e points i s) = data_lines s @ grid_rows e points i (pose_calls s)"
proof (induction "length points - i" arbitrary: i s)
  case 0
  then show ?case by (simp add: grid_loop_done grid_rows_done)
next
  case (Suc n)
  then have i: "i < length points" and n: "n = length points - (i + 1)" by simp_all
  show ?case
  proof (cases "fst (grid_move e (points ! i) (i + 1) s) \<le> 0")
    case True
    then have t: "arrival_timeout e (points ! i) 100 (pose_calls s) \<le> 0"
      by (simp only: grid_move_fst)
    show ?thesis
      unfolding grid_loop_abort(1) [OF i True] grid_rows_timeout [OF i t] by simp
  next
    case False
    then have t: "\<not> arrival_timeout e (points ! i) 100 (pose_calls s) \<le> 0"
      by (simp add: grid_move_fst)
    show ?thesis
      unfolding grid_loop_next [OF i False] Suc.hyps(1) [OF n] grid_rows_next [OF i t]
        grid_pass_state
      by simp
  qed
qed

lemma grid_move_log:
  "set (log_lines s) \<subseteq> set (log_lines (snd (grid_move e p idx s)))"
  by (auto simp add: grid_move_eq)

lemma grid_record_log_mono:
  "set (log_lines s) \<subseteq> set (log_lines (grid_record e idx s))"
  by (subst grid_record_log) auto

lemma grid_loop_log_mono:
  "set (log_lines s) \<subseteq> set (log_lines (grid_loop e points i s))"
proof (induction "length points - i" arbitrary: i s)
  case 0
  then show ?case by (simp add: grid_loop_done)
next
  case (Suc n)
  then have i: "i < length points" and n: "n = length points - (i + 1)" by simp_all
  show ?case
  proof (cases "fst (grid_move e (points ! i) (i + 1) s) \<le> 0")
    case True
    show ?thesis
      unfolding grid_loop_abort(4) [OF i True] by auto
  next
    case False
    have "set (log_lines s) \<subseteq> set (log_lines (snd (grid_move e (points ! i) (i + 1) s)))"
      by (rule grid_move_log)
    also have "\<dots> \<subseteq> set (log_lines (grid_record e (i + 1) (snd (grid_move e (points ! i) (i + 1) s))))"
      by (rule grid_record_log_mono)
    also have "\<dots> \<subseteq> set (log_lines (grid_loop e points (i + 1)
        (grid_record e (i + 1) (snd (grid_move e (points ! i) (i + 1) s)))))"
      by (rule Suc.hyps(1) [OF n])
    finally show ?thesis unfolding grid_loop_next [OF i False] .
  qed
qed

lemma grid_loop_capture_logged:
  assumes "capture_callback e = Some c" and "c k = Some what"
  shows "k \<in> fst ` set (grid_rows e points i (pose_calls s)) \<Longrightarrow>
     Text (''Capture callback error: '' @ what) \<in> set (log_lines (grid_loop e points i s))"
proof (induction "length points - i" arbitrary: i s)
  case 0
  then show ?case by (simp add: grid_rows_done)
next
  case (Suc n)
  then have i: "i < length points" and n: "n = length points - (i + 1)" by simp_all
  show ?case
  proof (cases "fst (grid_move e (points ! i) (i + 1) s) \<le> 0")
    case True
    then have t: "arrival_timeout e (points ! i) 100 (pose_calls s) \<le> 0"
      by (simp only: grid_move_fst)
    from Suc.prems show ?thesis
      unfolding grid_rows_timeout [OF i t] by simp
  next
    case False
    then have t: "\<not> arrival_timeout e (points ! i) 100 (pose_calls s) \<le> 0"
      by (simp add: grid_move_fst)
    let ?s = "grid_record e (i + 1) (snd (grid_move e (points ! i) (i + 1) s))"
    from Suc.prems have "k = i + 1 \<or> k \<in> fst ` set (grid_rows e points (i + 1) (pose_calls ?s))"
      unfolding grid_rows_next [OF i t] grid_pass_state by auto
    then show ?thesis
    proof
      assume "k = i + 1"
      then have "c (i + 1) = Some what" using assms(2) by simp
      with assms(1) have "Text (''Capture callback error: '' @ what) \<in> set (log_lines ?s)"
        by (rule grid_record_logs_error)
      then show ?thesis
        unfolding grid_loop_next [OF i False] using grid_loop_log_mono by blast
    next
      assume "k \<in> fst ` set (grid_rows e points (i + 1) (pose_calls ?s))"
      then show ?thesis
        unfolding grid_loop_next [OF i False] by (rule Suc.hyps(1) [OF n])
    qed
  qed
qed

lemma pyramid_visit_defined:
  assumes "ax_r2 ax < 5"
  obtains p where "dither_pose ax layers tilt i (targets ! i) = Inr p"
    and "pyramid_visit e ax layers tilt targets i s
           = Inr (projr (pyramid_visit e ax layers tilt targets i s))"
proof -
  from dither_pose_defined [OF assms] obtain p
    where p: "dither_pose ax layers tilt i (targets ! i) = Inr p" by blast
  from p pyramid_visit_frame(1) [OF p] show ?thesis by (rule that)
qed

lemma pyramid_loop_Inr:
  assumes "ax_r2 ax < 5"
  shows "pyramid_loop e ax layers tilt targets i s
           = Inr (projr (pyramid_loop e ax layers tilt targets i s))"
proof (induction "length targets - i" arbitrary: i s)
  case 0
  then show ?case by (simp add: pyramid_loop_done)
next
  case (Suc n)
  then have i: "i < length targets" and n: "n = length targets - (i + 1)" by simp_all
  obtain p where p: "dither_pose ax layers tilt i (targets ! i) = Inr p"
    and v: "pyramid_visit e ax layers tilt targets i s
           = Inr (projr (pyramid_visit e ax layers tilt targets i s))"
    by (rule pyramid_visit_defined [OF assms])
  show ?case
    unfolding pyramid_loop_next [OF i v] by (rule Suc.hyps(1) [OF n])
qed

lemma pyramid_loop_rows:
  assumes "ax_r2 ax < 5"
  shows "data_lines (projr (pyramid_loop e ax layers tilt targets i s))
     = data_lines s @ pyramid_rows e ax layers tilt targets i (pose_calls s)"
proof (induction "length targets - i" arbitrary: i s)
  case 0
  then show ?case by (simp add: pyramid_loop_done pyramid_rows_done)
next
  case (Suc n)
  then have i: "i < length targets" and n: "n = length targets - (i + 1)" by simp_all
  obtain p where p: "dither_pose ax layers tilt i (targets ! i) = Inr p"
    and v: "pyramid_visit e ax layers tilt targets i s
           = Inr (projr (pyramid_visit e ax layers tilt targets i s))"
    by (rule pyramid_visit_defined [OF assms])
  show ?case
    unfolding pyramid_loop_next [OF i v] Suc.hyps(1) [OF n] pyramid_rows_next [OF i p]
      pyramid_visit_frame(2,4) [OF p]
    by simp
qed

lemma pyramid_loop_frame:
  assumes "ax_r2 ax < 5"
  shows "length (scripts (projr (pyramid_loop e ax layers tilt targets i s)))
           = length (scripts s) + 3 * (length targets - i)
         \<and> outfile (projr (pyramid_loop e ax layers tilt targets i s)) = outfile s
         \<and> set (log_lines s) \<subseteq> set (log_lines (projr (pyramid_loop e ax layers tilt targets i s)))"
proof (induction "length targets - i" arbitrary: i s)
  case 0
  then show ?case by (simp add: pyramid_loop_done)
next
  case (Suc n)
  then have i: "i < length targets" and n: "n = length targets - (i + 1)" by simp_all
  obtain p where p: "dither_pose ax layers tilt i (targets ! i) = Inr p"
    and v: "pyramid_visit e ax layers tilt targets i s
           = Inr (projr (pyramid_visit e ax layers tilt targets i s))"
    by (rule pyramid_visit_defined [OF assms])
  have l: "set (log_lines s)
      \<subseteq> set (log_lines (projr (pyramid_visit e ax layers tilt targets i s)))"
    unfolding pyramid_visit_log [OF p] by auto
  from Suc.hyps(1) [OF n, of "projr (pyramid_visit e ax layers tilt targets i s)"] l i
  show ?case
    unfolding pyramid_loop_next [OF i v]
    by (auto simp add: pyramid_visit_frame(3,5) [OF p])
qed

lemma pyramid_rows_ids:
  assumes "ax_r2 ax < 5"
  shows "map fst (pyramid_rows e ax layers tilt targets i k) = map Suc [i..<length targets]"
proof (induction "length targets - i" arbitrary: i k)
  case 0
  then show ?case by (simp add: pyramid_rows_done)
next
  case (Suc n)
  then have i: "i < length targets" and n: "n = length targets - (i + 1)" by simp_all
  from dither_pose_defined [OF assms] obtain p
    where p: "dither_pose ax layers tilt i (targets ! i) = Inr p" by blast
  have u: "[i..<length targets] = i # [i + 1..<length targets]"
    using i by (simp add: upt_conv_Cons)
  show ?case
    unfolding pyramid_rows_next [OF i p] u using Suc.hyps(1) [OF n] by simp
qed

lemma pyramid_loop_capture_logged:
  assumes "ax_r2 ax < 5" and "capture_callback e = Some c" and "c (j + 1) = Some what"
  shows "i \<le> j \<Longrightarrow> j < length targets \<Longrightarrow>
     Text (''Capture error: '' @ what)
       \<in> set (log_lines (projr (pyramid_loop e ax layers tilt targets i s)))"
proof (induction "length targets - i" arbitrary: i s)
  case 0
  then show ?case by simp
next
  case (Suc n)
  then have i: "i < length targets" and n: "n = length targets - (i + 1)" by simp_all
  obtain p where p: "dither_pose ax layers tilt i (targets ! i) = Inr p"
    and v: "pyramid_visit e ax layers tilt targets i s
           = Inr (projr (pyramid_visit e ax layers tilt targets i s))"
    by (rule pyramid_visit_defined [OF assms(1)])
  show ?case
  proof (cases "i = j")
    case True
    have gi: "c (Suc i) = Some what" using assms(3) True by simp
    have "Text (''Capture error: '' @ what)
        \<in> set (log_lines (projr (pyramid_visit e ax layers tilt targets i s)))"
      unfolding pyramid_visit_log [OF p] by (simp add: assms(2) gi)
    then show ?thesis
      unfolding pyramid_loop_next [OF i v] using pyramid_loop_frame [OF assms(1)] by blast
  next
    case False
    with Suc.prems have "i + 1 \<le> j" by simp
    then show ?thesis
      unfolding pyramid_loop_next [OF i v] by (rule Suc.hyps(1) [OF n _ Suc.prems(2)])
  qed
qed

lemma run_3d_ready_fault:
  assumes "robot_ready e" and "pyramid_run_loop layers bw tw h tilt d e s = Inl f"
  shows "run_3d_calibration layers bw tw h tilt d e s = Inl f"
  using assms
  by (simp add: robot_ready_def run_3d_calibration_def pyramid_run_loop_def
      pyramid_targets_def pyramid_prelude_def split_def Let_def)

lemma run_3d_ready:
  assumes "robot_ready e" and "pyramid_run_loop layers bw tw h tilt d e s = Inr s4"
  shows "run_3d_calibration layers bw tw h tilt d e s
           = Inr (projr (run_3d_calibration layers bw tw h tilt d e s))"
    and "data_lines (projr (run_3d_calibration layers bw tw h tilt d e s)) = data_lines s4"
    and "scripts (projr (run_3d_calibration layers bw tw h tilt d e s)) =
           scripts s4 @ [MoveL (fst (pyramid_prelude layers bw tw h tilt d e s)) 0.5 0.2]"
    and "outfile (projr (run_3d_calibration layers bw tw h tilt d e s)) =
           (if outfile_opens e
            then Some (''workspace/calibration_3d_data.txt'', data_lines s4)
            else outfile s4)"
    and "pose_calls (projr (run_3d_calibration layers bw tw h tilt d e s)) = pose_calls s4"
    and "set (log_lines s4)
           \<subseteq> set (log_lines (projr (run_3d_calibration layers bw tw h tilt d e s)))"
  using assms
  by (auto simp add: robot_ready_def run_3d_calibration_def pyramid_run_loop_def
      pyramid_targets_def pyramid_prelude_def split_def Let_def log_msg_def sendScript_def)

lemma run_3d_not_ready:
  assumes "\<not> robot_ready e"
  shows "run_3d_calibration layers bw tw h tilt d e s
           = Inr (projr (run_3d_calibration layers bw tw h tilt d e s))"
    and "same_motion (projr (run_3d_calibration layers bw tw h tilt d e s)) s"
  using assms
  by (auto simp add: robot_ready_def run_3d_calibration_def same_motion_def log_msg_def)

lemma pyramid_run_loop_capture:
  "rel_sum (=) same_motion (pyramid_run_loop layers bw tw h tilt d (e\<lparr>capture_callback := g\<rparr>) s)
     (pyramid_run_loop layers bw tw h tilt d e s)"
proof -
  have c: "get_pose_callback (e\<lparr>capture_callback := g\<rparr>) = get_pose_callback e" by simp
  have p: "pyramid_prelude layers bw tw h tilt d (e\<lparr>capture_callback := g\<rparr>) s
             = pyramid_prelude layers bw tw h tilt d e s"
    by (simp add: pyramid_prelude_def get_pose_eq reported_cong [OF c] next_call_cong [OF c])
  show ?thesis
    unfolding pyramid_run_loop_def pyramid_targets_def p
    by (rule pyramid_loop_same [OF c same_motion_refl])
qed

lemma run_3d_calibration_capture:
  "rel_sum (=) same_motion (run_3d_calibration layers bw tw h tilt d (e\<lparr>capture_callback := g\<rparr>) s)
     (run_3d_calibration layers bw tw h tilt d e s)"
proof (cases "robot_ready e")
  case True
  then have r: "robot_ready (e\<lparr>capture_callback := g\<rparr>)" by simp
  have p: "pyramid_prelude layers bw tw h tilt d (e\<lparr>capture_callback := g\<rparr>) s
             = pyramid_prelude layers bw tw h tilt d e s"
    by (simp add: pyramid_prelude_def get_current_pose_m_rad_def)
  note l = pyramid_run_loop_capture [where e = e and g = g and s = s and layers = layers
      and bw = bw and tw = tw and h = h and tilt = tilt and d = d]
  show ?thesis
  proof (cases "pyramid_run_loop layers bw tw h tilt d e s")
    case (Inl f)
    with l have "pyramid_run_loop layers bw tw h tilt d (e\<lparr>capture_callback := g\<rparr>) s = Inl f"
      by (cases "pyramid_run_loop layers bw tw h tilt d (e\<lparr>capture_callback := g\<rparr>) s") simp_all
    then show ?thesis
      by (simp add: run_3d_ready_fault [OF True Inl] run_3d_ready_fault [OF r])
  next
    case (Inr t4)
    with l obtain s4
      where s4: "pyramid_run_loop layers bw tw h tilt d (e\<lparr>capture_callback := g\<rparr>) s = Inr s4"
        and m: "same_motion s4 t4"
      by (cases "pyramid_run_loop layers bw tw h tilt d (e\<lparr>capture_callback := g\<rparr>) s") simp_all
    note a = run_3d_ready [OF r s4] and b = run_3d_ready [OF True Inr]
    have "same_motion (projr (run_3d_calibration layers bw tw h tilt d (e\<lparr>capture_callback := g\<rparr>) s))
       (projr (run_3d_calibration layers bw tw h tilt d e s))"
      using m by (simp add: same_motion_def a(2-5) b(2-5) p)
    then show ?thesis
      by (subst a(1), subst b(1)) simp
  qed
next
  case False
  then have r: "\<not> robot_ready (e\<lparr>capture_callback := g\<rparr>)" by simp
  note a = run_3d_not_ready [OF r, of layers bw tw h tilt d s]
    and b = run_3d_not_ready [OF False, of layers bw tw h tilt d s]
  have "same_motion (projr (run_3d_calibration layers bw tw h tilt d (e\<lparr>capture_callback := g\<rparr>) s))
       (projr (run_3d_calibration layers bw tw h tilt d e s))"
    using a(2) b(2) by (simp add: same_motion_def)
  then show ?thesis
    by (subst a(1), subst b(1)) simp
qed

lemma length_pyramid_targets:
  "length (pyramid_targets layers bw tw h tilt d e s) = 4 * nat layers"
  by (simp add: pyramid_targets_def length_build_targets)

lemma next_call_Some: "get_pose_callback e = Some f \<Longrightarrow> next_call e k = Suc k"
  by (simp add: next_call_def get_current_pose_m_rad_def at_call_def Let_def)

lemma arrival_first_poll:
  assumes "get_pose_callback e = Some f" and "in_tolerance e target k" and "0 < n"
  shows "arrival_timeout e target n k = n" and "arrival_calls e target n k = Suc k"
proof -
  have t: "in_tolerance e target (pose_calls (at_call k) + 0)"
    using assms(2) by (simp add: at_call_def)
  have "wait_arrival e target n (at_call k)
      = (n - int 0, at_call k\<lparr>pose_calls := pose_calls (at_call k) + 0 + 1\<rparr>)"
    using assms(3) by (intro wait_arrival_first [OF assms(1) _ t]) simp_all
  then show "arrival_timeout e target n k = n" and "arrival_calls e target n k = Suc k"
    by (simp_all add: arrival_timeout_def arrival_calls_def at_call_def)
qed

lemma arrival_none:
  assumes "get_pose_callback e = Some f" and "\<forall>k. \<not> in_tolerance e target k"
  shows "arrival_timeout e target (int n) k = 0" and "arrival_calls e target (int n) k = k + n"
proof -
  have t: "\<forall>j<n. \<not> in_tolerance e target (pose_calls (at_call k) + j)"
    using assms(2) by simp
  have "wait_arrival e target (int n) (at_call k)
      = (0, at_call k\<lparr>pose_calls := pose_calls (at_call k) + n\<rparr>)"
    by (rule wait_arrival_never [OF assms(1) t])
  then show "arrival_timeout e target (int n) k = 0" and "arrival_calls e target (int n) k = k + n"
    by (simp_all add: arrival_timeout_def arrival_calls_def at_call_def)
qed

lemma dither_none:
  assumes "get_pose_callback e = Some f" and "\<forall>k. \<not> in_tolerance e p k"
  shows "dither_calls e p (int n) k = k + n"
proof (induction n arbitrary: k)
  case 0
  show ?case
    by (simp add: dither_calls_def wait_dither_step [of e p 0] at_call_def)
next
  case (Suc n)
  have far: "\<not> sqrt (dist_sq (reported e k) p) < 0.002"
    using assms(2) by (simp add: in_tolerance_def)
  have "wait_dither e p (int (Suc n)) (at_call k)
      = wait_dither e p (int n) (at_call k\<lparr>pose_calls := Suc k\<rparr>)"
    using far
    by (subst wait_dither_step) (simp add: next_call_Some [OF assms(1)] at_call_def)
  then have "dither_calls e p (int (Suc n)) k
      = pose_calls (snd (wait_dither e p (int n) (at_call k\<lparr>pose_calls := Suc k\<rparr>)))"
    by (simp only: dither_calls_def)
  also have "\<dots> = dither_calls e p (int n) (Suc k)"
    by (simp add: wait_dither_eq)
  also have "\<dots> = Suc k + n" by (rule Suc.IH)
  finally show ?case by simp
qed

lemma grid_rows_all_reached:
  assumes "get_pose_callback e = Some f"
    and "\<forall>j<length pts. in_tolerance e (pts ! j) (2 * j + 1)"
  shows "grid_rows e pts i (2 * i + 1) = map (\<lambda>j. (j + 1, reported e (2 * j + 2))) [i..<length pts]"
proof (induction "length pts - i" arbitrary: i)
  case 0
  then show ?case by (simp add: grid_rows_done)
next
  case (Suc n)
  then have i: "i < length pts" and n: "n = length pts - (i + 1)" by simp_all
  from assms(2) i have t: "in_tolerance e (pts ! i) (2 * i + 1)" by simp
  have h: "(0::int) < 100" by simp
  note a = arrival_first_poll [OF assms(1) t h]
  have p: "\<not> arrival_timeout e (pts ! i) 100 (2 * i + 1) \<le> 0" unfolding a(1) by simp
  have u: "[i..<length pts] = i # [i + 1..<length pts]"
    using i by (simp add: upt_conv_Cons)
  have k: "next_call e (Suc (2 * i + 1)) = 2 * (i + 1) + 1"
    by (simp add: next_call_Some [OF assms(1)])
  show ?case
    unfolding grid_rows_next [OF i p] a k Suc.hyps(1) [OF n] u by simp
qed

lemma pyramid_rows_none_reached:
  assumes "get_pose_callback e = Some f" and "ax_r2 ax < 5"
    and "\<forall>j<length targets. \<forall>k. \<not> in_tolerance e (targets ! j) k"
    and "\<forall>j<length targets. \<forall>p k. dither_pose ax layers tilt j (targets ! j) = Inr p
           \<longrightarrow> \<not> in_tolerance e p k"
  shows "pyramid_rows e ax layers tilt targets i (301 * i + 1)
     = map (\<lambda>j. (j + 1, reported e (301 * j + 251))) [i..<length targets]"
proof (induction "length targets - i" arbitrary: i)
  case 0
  then show ?case by (simp add: pyramid_rows_done)
next
  case (Suc n)
  then have i: "i < length targets" and n: "n = length targets - (i + 1)" by simp_all
  from dither_pose_defined [OF assms(2)] obtain p
    where p: "dither_pose ax layers tilt i (targets ! i) = Inr p" by blast
  from assms(3) i have ft: "\<forall>k. \<not> in_tolerance e (targets ! i) k" by simp
  from assms(4) i p have fp: "\<forall>k. \<not> in_tolerance e p k" by blast
  have a200: "arrival_calls e (targets ! i) 200 (301 * i + 1) = 301 * i + 1 + 200"
    using arrival_none(2) [OF assms(1) ft, of 200] by simp
  have d50: "dither_calls e p 50 (301 * i + 1 + 200) = 301 * i + 251"
    using dither_none [OF assms(1) fp, of 50] by simp
  have nc: "next_call e (301 * i + 251) = 301 * i + 252"
    by (simp add: next_call_Some [OF assms(1)])
  have a50: "arrival_calls e (targets ! i) 50 (301 * i + 252) = 301 * (i + 1) + 1"
    using arrival_none(2) [OF assms(1) ft, of 50] by simp
  have u: "[i..<length targets] = i # [i + 1..<length targets]"
    using i by (simp add: upt_conv_Cons)
  show ?case
    unfolding pyramid_rows_next [OF i p] a200 d50 nc a50 Suc.hyps(1) [OF n] u by simp
qed

lemma grid_prelude_eq:
  "fst (grid_prelude e s) = reported e (pose_calls s)"
  "pose_calls (snd (grid_prelude e s)) = next_call e (pose_calls s)"
  "data_lines (snd (grid_prelude e s)) = data_lines s"
  "scripts (snd (grid_prelude e s)) = scripts s"
  "outfile (snd (grid_prelude e s)) = outfile s"
  by (simp_all add: grid_prelude_def get_pose_eq log_msg_def)

lemma pyramid_prelude_eq:
  "fst (pyramid_prelude layers bw tw h tilt d e s) = reported e (pose_calls s)"
  "pose_calls (snd (pyramid_prelude layers bw tw h tilt d e s)) = next_call e (pose_calls s)"
  "data_lines (snd (pyramid_prelude layers bw tw h tilt d e s)) = data_lines s"
  "scripts (snd (pyramid_prelude layers bw tw h tilt d e s)) = scripts s"
  "outfile (snd (pyramid_prelude layers bw tw h tilt d e s)) = outfile s"
  by (simp_all add: pyramid_prelude_def get_pose_eq log_msg_def)

lemma grid_run_rows:
  assumes "robot_ready e"
  shows "data_lines (run_calibration e s) =
     data_lines s @ grid_rows e (grid_points (reported e (pose_calls s))) 0
                      (next_call e (pose_calls s))"
  unfolding run_calibration_ready(1) [OF assms] grid_run_loop_def grid_loop_rows grid_prelude_eq ..

lemma grid_run_capture_logged:
  assumes "robot_ready e" and "capture_callback e = Some c" and "c k = Some what"
    and "k \<in> fst ` set (grid_rows e (grid_points (reported e (pose_calls s))) 0
                          (next_call e (pose_calls s)))"
  shows "Text (''Capture callback error: '' @ what) \<in> set (log_lines (run_calibration e s))"
proof -
  have "k \<in> fst ` set (grid_rows e (grid_points (fst (grid_prelude e s))) 0
                          (pose_calls (snd (grid_prelude e s))))"
    using assms(4) by (simp only: grid_prelude_eq)
  then have "Text (''Capture callback error: '' @ what) \<in> set (log_lines (grid_run_loop e s))"
    unfolding grid_run_loop_def by (rule grid_loop_capture_logged [OF assms(2,3)])
  then show ?thesis
    using run_calibration_ready(5) [OF assms(1), of s] by blast
qed

lemma pyramid_run_defined:
  assumes "robot_ready e" and "ax_r2 (direction_axes d) < 5"
  shows "run_3d_calibration layers bw tw h tilt d e s
           = Inr (projr (run_3d_calibration layers bw tw h tilt d e s))"
    and "data_lines (projr (run_3d_calibration layers bw tw h tilt d e s)) =
           data_lines s @
             pyramid_rows e (direction_axes d) layers tilt
               (pyramid_targets layers bw tw h tilt d e s) 0 (next_call e (pose_calls s))"
    and "length (scripts (projr (run_3d_calibration layers bw tw h tilt d e s))) =
           length (scripts s) + 3 * (4 * nat layers) + 1"
    and "outfile (projr (run_3d_calibration layers bw tw h tilt d e s)) =
           (if outfile_opens e
            then Some (''workspace/calibration_3d_data.txt'',
                       data_lines (projr (run_3d_calibration layers bw tw h tilt d e s)))
            else outfile s)"
    and "set (log_lines (projr (pyramid_run_loop layers bw tw h tilt d e s)))
           \<subseteq> set (log_lines (projr (run_3d_calibration layers bw tw h tilt d e s)))"
proof -
  have l: "pyramid_run_loop layers bw tw h tilt d e s
      = Inr (projr (pyramid_run_loop layers bw tw h tilt d e s))"
    unfolding pyramid_run_loop_def by (rule pyramid_loop_Inr [OF assms(2)])
  note r = run_3d_ready [OF assms(1) l]
  have rows: "data_lines (projr (pyramid_run_loop layers bw tw h tilt d e s)) =
      data_lines s @
        pyramid_rows e (direction_axes d) layers tilt
          (pyramid_targets layers bw tw h tilt d e s) 0 (next_call e (pose_calls s))"
    unfolding pyramid_run_loop_def pyramid_loop_rows [OF assms(2)] pyramid_prelude_eq ..
  note f = pyramid_loop_frame [OF assms(2), of e layers tilt
      "pyramid_targets layers bw tw h tilt d e s" 0
      "snd (pyramid_prelude layers bw tw h tilt d e s)", folded pyramid_run_loop_def]
  show "run_3d_calibration layers bw tw h tilt d e s
           = Inr (projr (run_3d_calibration layers bw tw h tilt d e s))"
    by (rule r(1))
  show "data_lines (projr (run_3d_calibration layers bw tw h tilt d e s)) =
           data_lines s @
             pyramid_rows e (direction_axes d) layers tilt
               (pyramid_targets layers bw tw h tilt d e s) 0 (next_call e (pose_calls s))"
    unfolding r(2) by (rule rows)
  show "length (scripts (projr (run_3d_calibration layers bw tw h tilt d e s))) =
           length (scripts s) + 3 * (4 * nat layers) + 1"
    unfolding r(3) using f by (simp add: length_pyramid_targets pyramid_prelude_eq)
  show "outfile (projr (run_3d_calibration layers bw tw h tilt d e s)) =
           (if outfile_opens e
            then Some (''workspace/calibration_3d_data.txt'',
                       data_lines (projr (run_3d_calibration layers bw tw h tilt d e s)))
            else outfile s)"
    unfolding r(4) r(2) using f by (simp add: pyramid_prelude_eq)
  show "set (log_lines (projr (pyramid_run_loop layers bw tw h tilt d e s)))
           \<subseteq> set (log_lines (projr (run_3d_calibration layers bw tw h tilt d e s)))"
    by (rule r(6))
qed

lemma pyramid_run_capture_logged:
  assumes "robot_ready e" and "ax_r2 (direction_axes d) < 5"
    and "capture_callback e = Some c" and "c k = Some what"
    and "1 \<le> k" and "k \<le> 4 * nat layers"
  shows "Text (''Capture error: '' @ what)
     \<in> set (log_lines (projr (run_3d_calibration layers bw tw h tilt d e s)))"
proof -
  from assms(4,5,6) have k: "c (k - 1 + 1) = Some what" and b: "0 \<le> k - 1"
    and l: "k - 1 < length (pyramid_targets layers bw tw h tilt d e s)"
    by (auto simp add: length_pyramid_targets)
  have "Text (''Capture error: '' @ what)
      \<in> set (log_lines (projr (pyramid_run_loop layers bw tw h tilt d e s)))"
    unfolding pyramid_run_loop_def
    by (rule pyramid_loop_capture_logged [OF assms(2,3) k b l])
  then show ?thesis
    using pyramid_run_defined(5) [OF assms(1,2)] by blast
qed

section \<open>Failure of the capture callback\<close>

lemma pyramid_run_faults:
  assumes "robot_ready e" and "d \<in> {''X+'', ''X-'', ''Y+'', ''Y-''}" and "1 \<le> layers"
  shows "\<exists>q. run_3d_calibration layers bw tw h tilt d e s
           = Inl (StoreOutside 6 (2 * (1 / 57.29578)) q)"
proof -
  let ?ts = "pyramid_targets layers bw tw h tilt d e s"
  have x: "\<not> ax_r2 (direction_axes d) < 5"
    using assms(2) by (simp only: direction_axes_defined) simp
  have six: "ax_r2 (direction_axes d) + 1 = 6"
    using x direction_axes_in_range [of d] by simp
  have l: "0 < length ?ts"
    using assms(3) by (simp add: length_pyramid_targets)
  from dither_pose_fault [OF x, of layers tilt 0 "?ts ! 0"] obtain q
    where q: "dither_pose (direction_axes d) layers tilt 0 (?ts ! 0)
                = Inl (StoreOutside 6 (2 * (1 / 57.29578)) q)"
    unfolding six by auto
  have "pyramid_run_loop layers bw tw h tilt d e s = Inl (StoreOutside 6 (2 * (1 / 57.29578)) q)"
    unfolding pyramid_run_loop_def
    by (rule pyramid_loop_fault [OF l pyramid_visit_fault [OF q]])
  then have "run_3d_calibration layers bw tw h tilt d e s
      = Inl (StoreOutside 6 (2 * (1 / 57.29578)) q)"
    by (rule run_3d_ready_fault [OF assms(1)])
  then show ?thesis by blast
qed

text \<open>
  C8. Both runs hold the rows of \<open>grid_rows\<close> and \<open>pyramid_rows\<close>: one row for each point
  reached, in order, with the pose sampled at that point, whatever the capture callback
  does. Replacing the callback by any other (one that throws at some point \<open>k\<close>, one that
  never throws, none at all) changes neither the rows, nor the scripts sent, nor the file
  written. When the callback throws at a point that has a row, its message is in the log
  of the run, and the run returns its state as always: nothing is propagated. With the
  robot ready, the pyramid run of \<open>4 * layers\<close> targets records the ids
  \<open>1, ..., 4 * layers\<close>; this is for every direction but \<^verbatim>\<open>X+\<close>, \<^verbatim>\<open>X-\<close>, \<^verbatim>\<open>Y+\<close>, \<^verbatim>\<open>Y-\<close>, where
  the run ends in the store outside the array (C1) in its first pass, before any capture
  call.
\<close>

theorem capture_failure_keeps_records:
  "data_lines (run_calibration (e\<lparr>capture_callback := g\<rparr>) s) = data_lines (run_calibration e s)
   \<and> scripts (run_calibration (e\<lparr>capture_callback := g\<rparr>) s) = scripts (run_calibration e s)
   \<and> outfile (run_calibration (e\<lparr>capture_callback := g\<rparr>) s) = outfile (run_calibration e s)
   \<and> map_sum id data_lines (run_3d_calibration layers bw tw h tilt d (e\<lparr>capture_callback := g\<rparr>) s)
       = map_sum id data_lines (run_3d_calibration layers bw tw h tilt d e s)
   \<and> map_sum id scripts (run_3d_calibration layers bw tw h tilt d (e\<lparr>capture_callback := g\<rparr>) s)
       = map_sum id scripts (run_3d_calibration layers bw tw h tilt d e s)
   \<and> map_sum id outfile (run_3d_calibration layers bw tw h tilt d (e\<lparr>capture_callback := g\<rparr>) s)
       = map_sum id outfile (run_3d_calibration layers bw tw h tilt d e s)
   \<and> (robot_ready e \<longrightarrow>
        data_lines (run_calibration e s) =
          data_lines s @ grid_rows e (grid_points (reported e (pose_calls s))) 0
                           (next_call e (pose_calls s)))
   \<and> (robot_ready e \<and> capture_callback e = Some c \<and> c k = Some what
        \<and> k \<in> fst ` set (grid_rows e (grid_points (reported e (pose_calls s))) 0
                             (next_call e (pose_calls s))) \<longrightarrow>
        Text (''Capture callback error: '' @ what) \<in> set (log_lines (run_calibration e s)))
   \<and> (robot_ready e \<and> d \<notin> {''X+'', ''X-'', ''Y+'', ''Y-''} \<longrightarrow>
        (\<exists>s'. run_3d_calibration layers bw tw h tilt d e s = Inr s'
           \<and> data_lines s' =
               data_lines s @
                 pyramid_rows e (direction_axes d) layers tilt
                   (pyramid_targets layers bw tw h tilt d e s) 0 (next_call e (pose_calls s))
           \<and> map fst (data_lines s') = map fst (data_lines s) @ map Suc [0..<4 * nat layers]
           \<and> (capture_callback e = Some c \<and> c k = Some what \<and> 1 \<le> k \<and> k \<le> 4 * nat layers \<longrightarrow>
                Text (''Capture error: '' @ what) \<in> set (log_lines s'))))
   \<and> (robot_ready e \<and> d \<in> {''X+'', ''X-'', ''Y+'', ''Y-''} \<and> 1 \<le> layers \<longrightarrow>
        (\<exists>q. run_3d_calibration layers bw tw h tilt d e s
           = Inl (StoreOutside 6 (2 * (1 / 57.29578)) q)))"
proof (intro conjI impI)
  note g = run_calibration_capture [where e = e and g = g and s = s, unfolded same_motion_def]
  note p = run_3d_calibration_capture [where e = e and g = g and s = s and layers = layers
      and bw = bw and tw = tw and h = h and tilt = tilt and d = d]
  show "data_lines (run_calibration (e\<lparr>capture_callback := g\<rparr>) s) = data_lines (run_calibration e s)"
    using g by simp
  show "scripts (run_calibration (e\<lparr>capture_callback := g\<rparr>) s) = scripts (run_calibration e s)"
    using g by simp
  show "outfile (run_calibration (e\<lparr>capture_callback := g\<rparr>) s) = outfile (run_calibration e s)"
    using g by simp
  show "map_sum id data_lines (run_3d_calibration layers bw tw h tilt d (e\<lparr>capture_callback := g\<rparr>) s)
       = map_sum id data_lines (run_3d_calibration layers bw tw h tilt d e s)"
    using p by (auto simp add: same_motion_def elim: rel_sum.cases)
  show "map_sum id scripts (run_3d_calibration layers bw tw h tilt d (e\<lparr>capture_callback := g\<rparr>) s)
       = map_sum id scripts (run_3d_calibration layers bw tw h tilt d e s)"
    using p by (auto simp add: same_motion_def elim: rel_sum.cases)
  show "map_sum id outfile (run_3d_calibration layers bw tw h tilt d (e\<lparr>capture_callback := g\<rparr>) s)
       = map_sum id outfile (run_3d_calibration layers bw tw h tilt d e s)"
    using p by (auto simp add: same_motion_def elim: rel_sum.cases)
next
  assume "robot_ready e"
  then show "data_lines (run_calibration e s) =
          data_lines s @ grid_rows e (grid_points (reported e (pose_calls s))) 0
                           (next_call e (pose_calls s))"
    by (rule grid_run_rows)
next
  assume "robot_ready e \<and> capture_callback e = Some c \<and> c k = Some what
        \<and> k \<in> fst ` set (grid_rows e (grid_points (reported e (pose_calls s))) 0
                             (next_call e (pose_calls s)))"
  then have "robot_ready e" and "capture_callback e = Some c" and "c k = Some what"
    and "k \<in> fst ` set (grid_rows e (grid_points (reported e (pose_calls s))) 0
                             (next_call e (pose_calls s)))"
    by simp_all
  then show "Text (''Capture callback error: '' @ what) \<in> set (log_lines (run_calibration e s))"
    by (rule grid_run_capture_logged)
next
  assume a: "robot_ready e \<and> d \<notin> {''X+'', ''X-'', ''Y+'', ''Y-''}"
  then have r: "robot_ready e" and x: "ax_r2 (direction_axes d) < 5"
    by (simp_all add: direction_axes_defined)
  note f = pyramid_run_defined [OF r x, of layers bw tw h tilt s]
  let ?s = "projr (run_3d_calibration layers bw tw h tilt d e s)"
  have ids: "map fst (data_lines ?s) = map fst (data_lines s) @ map Suc [0..<4 * nat layers]"
    unfolding f(2) by (simp add: pyramid_rows_ids [OF x] length_pyramid_targets)
  have lg: "capture_callback e = Some c \<and> c k = Some what \<and> 1 \<le> k \<and> k \<le> 4 * nat layers \<longrightarrow>
      Text (''Capture error: '' @ what) \<in> set (log_lines ?s)"
    using pyramid_run_capture_logged [OF r x] by blast
  show "\<exists>s'. run_3d_calibration layers bw tw h tilt d e s = Inr s'
           \<and> data_lines s' =
               data_lines s @
                 pyramid_rows e (direction_axes d) layers tilt
                   (pyramid_targets layers bw tw h tilt d e s) 0 (next_call e (pose_calls s))
           \<and> map fst (data_lines s') = map fst (data_lines s) @ map Suc [0..<4 * nat layers]
           \<and> (capture_callback e = Some c \<and> c k = Some what \<and> 1 \<le> k \<and> k \<le> 4 * nat layers \<longrightarrow>
                Text (''Capture error: '' @ what) \<in> set (log_lines s'))"
    using f(1) f(2) ids lg by blast
next
  assume "robot_ready e \<and> d \<in> {''X+'', ''X-'', ''Y+'', ''Y-''} \<and> 1 \<le> layers"
  then have "robot_ready e" and "d \<in> {''X+'', ''X-'', ''Y+'', ''Y-''}" and "1 \<le> layers"
    by simp_all
  then show "\<exists>q. run_3d_calibration layers bw tw h tilt d e s
           = Inl (StoreOutside 6 (2 * (1 / 57.29578)) q)"
    by (rule pyramid_run_faults)
qed

lemma grid_points_zero_list:
  "grid_points zero_pose =
     [ [0, - 0.05, - 0.05, 0, 0, 0], [0, 0, - 0.05, 0, 0, 0], [0, 0.05, - 0.05, 0, 0, 0],
      [0, - 0.05, 0, 0, 0, 0], [0, 0, 0, 0, 0, 0], [0, 0.05, 0, 0, 0, 0],
      [0, - 0.05, 0.05, 0, 0, 0], [0, 0, 0.05, 0, 0, 0], [0, 0.05, 0.05, 0, 0, 0]]"
  by (simp add: grid_points_def zero_pose_def GRID_STEP_def Let_def)

lemma less_9_cases:
  "j < 9 \<Longrightarrow> j = 0 \<or> j = 1 \<or> j = 2 \<or> j = 3 \<or> j = 4 \<or> j = 5 \<or> j = 6 \<or> j = 7 \<or> j = (8::nat)"
  by arith

lemma less_4_cases: "j < 4 \<Longrightarrow> j = 0 \<or> j = 1 \<or> j = 2 \<or> j = (3::nat)"
  by arith

lemma track_callback:
  "get_pose_callback track_env =
     Some (\<lambda>n. if n = 0 then [0, 0, 0, 0, 0, 0]
                else [0, (real (((n - 1) div 2) mod 3) - 1) * 50,
                      (real (((n - 1) div 2) div 3) - 1) * 50, real n, 0, 0])"
  by (simp add: track_env_def)

lemma track_reported:
  "reported track_env n =
     (if n = 0 then zero_pose
      else [0, (real (((n - 1) div 2) mod 3) - 1) * 0.05,
            (real (((n - 1) div 2) div 3) - 1) * 0.05, real n / 57.29578, 0, 0])"
  by (simp add: reported_def get_current_pose_m_rad_def track_env_def zero_pose_def Let_def)

lemma track_arrives:
  "\<forall>j<length (grid_points zero_pose). in_tolerance track_env (grid_points zero_pose ! j) (2 * j + 1)"
proof (intro allI impI)
  fix j assume "j < length (grid_points zero_pose)"
  then have "j < 9" by (simp add: length_grid_points)
  then have "j = 0 \<or> j = 1 \<or> j = 2 \<or> j = 3 \<or> j = 4 \<or> j = 5 \<or> j = 6 \<or> j = 7 \<or> j = 8"
    by (rule less_9_cases)
  then show "in_tolerance track_env (grid_points zero_pose ! j) (2 * j + 1)"
    unfolding in_tolerance_iff grid_points_zero_list
    by (elim disjE) (simp_all add: track_reported dist_sq_def)
qed

lemma track_rows:
  "grid_rows track_env (grid_points zero_pose) 0 1 =
     [(1, [0, - 0.05, - 0.05, 2 / 57.29578, 0, 0]), (2, [0, 0, - 0.05, 4 / 57.29578, 0, 0]),
      (3, [0, 0.05, - 0.05, 6 / 57.29578, 0, 0]), (4, [0, - 0.05, 0, 8 / 57.29578, 0, 0]),
      (5, [0, 0, 0, 10 / 57.29578, 0, 0]), (6, [0, 0.05, 0, 12 / 57.29578, 0, 0]),
      (7, [0, - 0.05, 0.05, 14 / 57.29578, 0, 0]), (8, [0, 0, 0.05, 16 / 57.29578, 0, 0]),
      (9, [0, 0.05, 0.05, 18 / 57.29578, 0, 0])]"
proof -
  have "grid_rows track_env (grid_points zero_pose) 0 (2 * 0 + 1)
      = map (\<lambda>j. (j + 1, reported track_env (2 * j + 2))) [0..<length (grid_points zero_pose)]"
    by (rule grid_rows_all_reached [OF track_callback track_arrives])
  then show ?thesis
    by (simp add: length_grid_points upt_rec track_reported)
qed

lemma throw_callback:
  "get_pose_callback throw_env = Some (\<lambda>n. [real n, 0, 0, 0, 0, 0])"
  by (simp add: throw_env_def)

lemma throw_reported: "reported throw_env k = [real k / 1000, 0, 0, 0, 0, 0]"
  by (simp add: reported_def get_current_pose_m_rad_def throw_env_def Let_def)

lemma throw_far:
  assumes "0.000004 \<le> q ! 1 * q ! 1"
  shows "\<not> in_tolerance throw_env q k"
proof -
  have "q ! 1 * q ! 1 \<le> dist_sq (reported throw_env k) q"
    by (simp add: throw_reported dist_sq_def power2_eq_square)
  with assms show ?thesis by (simp add: in_tolerance_iff)
qed

lemma throw_targets:
  "pyramid_targets 1 100 50 50 10 ''Z+'' throw_env initial_state =
     [ [- 0.05, - 0.05, 0, 0, 0, 0], [- 0.05, 0.05, 0, 0, 0, 0],
      [0.05, 0.05, 0, 0, 0, 0], [0.05, - 0.05, 0, 0, 0, 0]]"
proof -
  have ax: "direction_axes ''Z+'' = \<lparr>ax_h = 2, ax_w1 = 0, ax_w2 = 1, ax_r1 = 3, ax_r2 = 4, h_sign = 1\<rparr>"
    by (simp add: direction_axes_def)
  have c: "fst (pyramid_prelude 1 100 50 50 10 ''Z+'' throw_env initial_state) = [0, 0, 0, 0, 0, 0]"
    by (simp add: pyramid_prelude_eq throw_reported initial_state_def)
  have t: "build_targets ax c 1 bw tw h 0 [] = layer_points ax c 1 bw tw h 0" for ax c bw tw h
    by (simp add: build_targets.simps)
  show ?thesis
    unfolding pyramid_targets_def c
    by (simp only: t) (simp add: ax layer_points_def corner_point_def add_in_def corner_signs_def Let_def)
qed

lemma throw_rows:
  "pyramid_rows throw_env (direction_axes ''Z+'') 1 10
     (pyramid_targets 1 100 50 50 10 ''Z+'' throw_env initial_state) 0 1 =
     [(1, [0.251, 0, 0, 0, 0, 0]), (2, [0.552, 0, 0, 0, 0, 0]),
      (3, [0.853, 0, 0, 0, 0, 0]), (4, [1.154, 0, 0, 0, 0, 0])]"
proof -
  let ?ts = "pyramid_targets 1 100 50 50 10 ''Z+'' throw_env initial_state"
  have x: "ax_r2 (direction_axes ''Z+'') < 5" by (simp add: direction_axes_def)
  have y: "\<forall>j<length ?ts. 0.000004 \<le> ?ts ! j ! 1 * (?ts ! j ! 1)"
  proof (intro allI impI)
    fix j assume "j < length ?ts"
    then have "j < 4" by (simp add: length_pyramid_targets)
    then have "j = 0 \<or> j = 1 \<or> j = 2 \<or> j = 3" by (rule less_4_cases)
    then show "0.000004 \<le> ?ts ! j ! 1 * (?ts ! j ! 1)"
      unfolding throw_targets by (elim disjE) simp_all
  qed
  have a: "\<forall>j<length ?ts. \<forall>k. \<not> in_tolerance throw_env (?ts ! j) k"
    using y throw_far by blast
  have b: "\<forall>j<length ?ts. \<forall>p k. dither_pose (direction_axes ''Z+'') 1 10 j (?ts ! j) = Inr p
           \<longrightarrow> \<not> in_tolerance throw_env p k"
  proof (intro allI impI)
    fix j p k
    assume j: "j < length ?ts"
      and p: "dither_pose (direction_axes ''Z+'') 1 10 j (?ts ! j) = Inr p"
    have "take 3 p ! 1 = take 3 ((?ts ! j)[ax_h (direction_axes ''Z+'') :=
        ?ts ! j ! ax_h (direction_axes ''Z+'') + 0.0001]) ! 1"
      by (simp only: dither_pose_translation [OF p])
    then have "p ! 1 = ?ts ! j ! 1"
      by (simp add: direction_axes_def)
    with y j have "0.000004 \<le> p ! 1 * p ! 1" by simp
    then show "\<not> in_tolerance throw_env p k" by (rule throw_far)
  qed
  have "pyramid_rows throw_env (direction_axes ''Z+'') 1 10 ?ts 0 (301 * 0 + 1)
      = map (\<lambda>j. (j + 1, reported throw_env (301 * j + 251))) [0..<length ?ts]"
    by (rule pyramid_rows_none_reached [OF throw_callback x a b])
  then show ?thesis
    by (simp add: length_pyramid_targets upt_rec throw_reported)
qed

theorem capture_failure_keeps_records_witness:
  "robot_ready track_env
   \<and> capture_callback track_env = Some (\<lambda>idx. if idx = 2 then Some ''camera offline'' else None)
   \<and> data_lines (run_calibration track_env initial_state) =
       [(1, [0, - 0.05, - 0.05, 2 / 57.29578, 0, 0]), (2, [0, 0, - 0.05, 4 / 57.29578, 0, 0]),
        (3, [0, 0.05, - 0.05, 6 / 57.29578, 0, 0]), (4, [0, - 0.05, 0, 8 / 57.29578, 0, 0]),
        (5, [0, 0, 0, 10 / 57.29578, 0, 0]), (6, [0, 0.05, 0, 12 / 57.29578, 0, 0]),
        (7, [0, - 0.05, 0.05, 14 / 57.29578, 0, 0]), (8, [0, 0, 0.05, 16 / 57.29578, 0, 0]),
        (9, [0, 0.05, 0.05, 18 / 57.29578, 0, 0])]
   \<and> Text ''Capture callback error: camera offline''
       \<in> set (log_lines (run_calibration track_env initial_state))
   \<and> robot_ready throw_env
   \<and> capture_callback throw_env = Some (\<lambda>idx. if idx = 2 then Some ''camera offline'' else None)
   \<and> ''Z+'' \<notin> {''X+'', ''X-'', ''Y+'', ''Y-''} \<and> (1::nat) \<le> 2 \<and> (2::nat) \<le> 4 * nat 1
   \<and> (\<exists>s'. run_3d_calibration 1 100 50 50 10 ''Z+'' throw_env initial_state = Inr s'
        \<and> data_lines s' =
            [(1, [0.251, 0, 0, 0, 0, 0]), (2, [0.552, 0, 0, 0, 0, 0]),
             (3, [0.853, 0, 0, 0, 0, 0]), (4, [1.154, 0, 0, 0, 0, 0])]
        \<and> Text ''Capture error: camera offline'' \<in> set (log_lines s'))
   \<and> ''Y+'' \<in> {''X+'', ''X-'', ''Y+'', ''Y-''} \<and> (1::int) \<le> 1
   \<and> (\<exists>q. run_3d_calibration 1 100 50 50 10 ''Y+'' throw_env initial_state
        = Inl (StoreOutside 6 (2 * (1 / 57.29578)) q))"
proof -
  have r1: "robot_ready track_env" by (simp add: robot_ready_def track_env_def)
  have c1: "capture_callback track_env = Some (\<lambda>idx. if idx = 2 then Some ''camera offline'' else None)"
    by (simp add: track_env_def)
  have r2: "robot_ready throw_env" by (simp add: robot_ready_def throw_env_def)
  have c2: "capture_callback throw_env = Some (\<lambda>idx. if idx = 2 then Some ''camera offline'' else None)"
    by (simp add: throw_env_def)
  have i: "data_lines initial_state = []" "pose_calls initial_state = 0"
    by (simp_all add: initial_state_def)
  have k1: "reported track_env 0 = zero_pose" "next_call track_env 0 = 1"
    by (simp_all add: track_reported next_call_Some [OF track_callback])
  have k2: "next_call throw_env 0 = 1"
    by (simp add: next_call_Some [OF throw_callback])
  have d: "''Z+'' \<notin> {''X+'', ''X-'', ''Y+'', ''Y-''}" by simp
  note g = capture_failure_keeps_records [where e = track_env and s = initial_state
      and c = "\<lambda>idx. if idx = 2 then Some ''camera offline'' else None" and k = 2
      and what = "''camera offline''", unfolded i k1 track_rows]
  note p = capture_failure_keeps_records [where e = throw_env and s = initial_state
      and layers = 1 and bw = 100 and tw = 50 and h = 50 and tilt = 10 and d = "''Z+''"
      and c = "\<lambda>idx. if idx = 2 then Some ''camera offline'' else None" and k = 2
      and what = "''camera offline''", unfolded i k2 throw_rows]
  have grid: "data_lines (run_calibration track_env initial_state) =
       [(1, [0, - 0.05, - 0.05, 2 / 57.29578, 0, 0]), (2, [0, 0, - 0.05, 4 / 57.29578, 0, 0]),
        (3, [0, 0.05, - 0.05, 6 / 57.29578, 0, 0]), (4, [0, - 0.05, 0, 8 / 57.29578, 0, 0]),
        (5, [0, 0, 0, 10 / 57.29578, 0, 0]), (6, [0, 0.05, 0, 12 / 57.29578, 0, 0]),
        (7, [0, - 0.05, 0.05, 14 / 57.29578, 0, 0]), (8, [0, 0, 0.05, 16 / 57.29578, 0, 0]),
        (9, [0, 0.05, 0.05, 18 / 57.29578, 0, 0])]"
    using g r1 by simp
  have glog: "Text ''Capture callback error: camera offline''
       \<in> set (log_lines (run_calibration track_env initial_state))"
    using g r1 c1 by simp
  have pyr: "\<exists>s'. run_3d_calibration 1 100 50 50 10 ''Z+'' throw_env initial_state = Inr s'
        \<and> data_lines s' =
            [(1, [0.251, 0, 0, 0, 0, 0]), (2, [0.552, 0, 0, 0, 0, 0]),
             (3, [0.853, 0, 0, 0, 0, 0]), (4, [1.154, 0, 0, 0, 0, 0])]
        \<and> Text ''Capture error: camera offline'' \<in> set (log_lines s')"
    using p r2 c2 d by auto
  have flt: "\<exists>q. run_3d_calibration 1 100 50 50 10 ''Y+'' throw_env initial_state
        = Inl (StoreOutside 6 (2 * (1 / 57.29578)) q)"
    using capture_failure_keeps_records [where e = throw_env and s = initial_state
      and layers = 1 and bw = 100 and tw = 50 and h = 50 and tilt = 10 and d = "''Y+''"] r2
    by simp
  show ?thesis
    using r1 c1 grid glog r2 c2 pyr flt by simp
qed

section \<open>Runs without a usable pose\<close>

lemma zero_pose_substituted:
  "get_pose_callback e = None \<or> (\<exists>f. get_pose_callback e = Some f \<and> length (f (pose_calls s)) < 6)
     \<Longrightarrow> fst (get_current_pose_m_rad e s) = zero_pose"
  by (auto simp add: get_current_pose_m_rad_def Let_def)

lemma unavailable_reported: "pose_unavailable e \<Longrightarrow> reported e k = zero_pose"
  by (simp add: pose_unavailable_def reported_def get_current_pose_m_rad_def Let_def
      split: option.splits)

lemma wait_arrival_stuck:
  assumes "\<forall>k. \<not> in_tolerance e target k"
  shows "fst (wait_arrival e target n s) \<le> 0"
proof (induction "nat n" arbitrary: n s)
  case 0
  then show ?case by (simp add: wait_arrival_step [of e target n])
next
  case (Suc m)
  have m: "m = nat (n - 1)" using Suc.hyps(2) by simp
  show ?case
    using assms Suc.hyps(1) [OF m] by (simp add: wait_arrival_step [of e target n])
qed

lemma first_grid_point_far:
  assumes "pose_unavailable e"
  shows "\<not> in_tolerance e (grid_points zero_pose ! 0) k"
  unfolding in_tolerance_iff unavailable_reported [OF assms] grid_points_zero_nth
  by (simp add: dist_sq_def zero_pose_def power2_eq_square)

lemma grid_run_unavailable:
  assumes "pose_unavailable e"
  shows "data_lines (grid_run_loop e s) = data_lines s"
    and "scripts (grid_run_loop e s)
           = scripts s @ [MoveL (grid_points zero_pose ! 0) MOVE_ACCEL MOVE_SPEED]"
    and "Text ''Timeout waiting for robot to reach point'' \<in> set (log_lines (grid_run_loop e s))"
    and "fst (grid_prelude e s) = zero_pose"
proof -
  have c: "fst (grid_prelude e s) = zero_pose"
    by (simp add: grid_prelude_def get_pose_eq unavailable_reported [OF assms])
  have l: "0 < length (grid_points zero_pose)" by (simp add: length_grid_points)
  have "\<forall>k. \<not> in_tolerance e (grid_points zero_pose ! 0) k"
    using first_grid_point_far [OF assms] by simp
  then have t: "fst (grid_move e (grid_points zero_pose ! 0) (0 + 1) (snd (grid_prelude e s))) \<le> 0"
    unfolding grid_move_def by (rule wait_arrival_stuck)
  note a = grid_loop_abort [OF l t]
  have p: "data_lines (snd (grid_prelude e s)) = data_lines s"
    "scripts (snd (grid_prelude e s)) = scripts s"
    by (simp_all add: grid_prelude_def get_pose_eq log_msg_def)
  show "data_lines (grid_run_loop e s) = data_lines s"
    unfolding grid_run_loop_def c a(1) by (rule p(1))
  show "scripts (grid_run_loop e s)
           = scripts s @ [MoveL (grid_points zero_pose ! 0) MOVE_ACCEL MOVE_SPEED]"
    unfolding grid_run_loop_def c a(2) by (simp only: p(2))
  show "Text ''Timeout waiting for robot to reach point'' \<in> set (log_lines (grid_run_loop e s))"
    unfolding grid_run_loop_def c a(4) by simp
  show "fst (grid_prelude e s) = zero_pose" by (rule c)
qed

lemma grid_run_unavailable_run:
  assumes "pose_unavailable e" and "robot_ready e"
  shows "data_lines (run_calibration e s) = data_lines s"
    and "scripts (run_calibration e s)
           = scripts s @ [MoveL [0, - 0.05, - 0.05, 0, 0, 0] MOVE_ACCEL MOVE_SPEED,
                          MoveL zero_pose 0.5 0.2]"
    and "Text ''Timeout waiting for robot to reach point'' \<in> set (log_lines (run_calibration e s))"
proof -
  note u = grid_run_unavailable [OF assms(1), of s]
  note r = run_calibration_ready [OF assms(2), of s]
  show "data_lines (run_calibration e s) = data_lines s"
    unfolding r(1) by (rule u(1))
  show "scripts (run_calibration e s)
           = scripts s @ [MoveL [0, - 0.05, - 0.05, 0, 0, 0] MOVE_ACCEL MOVE_SPEED,
                          MoveL zero_pose 0.5 0.2]"
    unfolding r(2) u(2) u(4) grid_points_zero_nth by simp
  show "Text ''Timeout waiting for robot to reach point'' \<in> set (log_lines (run_calibration e s))"
    using u(3) r(5) by blast
qed

text \<open>
  C10, as stated, fails for the grid run: without a pose provider the centre is the zero
  pose, the first target is 0.0707 m away from every pose read, the wait runs out, and the
  run logs the timeout and stops after one move with no row recorded.
\<close>

theorem grid_run_without_provider_aborts:
  "get_pose_callback null_env = None \<and> robot_ready null_env
   \<and> data_lines (run_calibration null_env initial_state) = []
   \<and> scripts (run_calibration null_env initial_state)
       = [MoveL [0, - 0.05, - 0.05, 0, 0, 0] MOVE_ACCEL MOVE_SPEED, MoveL zero_pose 0.5 0.2]
   \<and> Text ''Timeout waiting for robot to reach point''
       \<in> set (log_lines (run_calibration null_env initial_state))"
proof -
  have n: "get_pose_callback null_env = None" by (simp add: null_env_def)
  have u: "pose_unavailable null_env" by (simp add: pose_unavailable_def n)
  have r: "robot_ready null_env" by (simp add: robot_ready_def null_env_def)
  have i: "data_lines initial_state = []" "scripts initial_state = []"
    by (simp_all add: initial_state_def)
  show ?thesis
    using n r grid_run_unavailable_run [OF u r, of initial_state] by (simp add: i)
qed

lemma wait_arrival_stuck_zero:
  assumes "\<forall>k. \<not> in_tolerance e target k"
  shows "0 \<le> n \<Longrightarrow> fst (wait_arrival e target n s) = 0"
proof (induction "nat n" arbitrary: n s)
  case 0
  then show ?case by (simp add: wait_arrival_step [of e target n] wait_arrival_step [of e target 0])
next
  case (Suc m)
  have m: "m = nat (n - 1)" and p: "0 \<le> n - 1" using Suc.hyps(2) by simp_all
  have pos: "0 < n" using Suc.hyps(2) by simp
  show ?case
    using assms Suc.hyps(1) [OF m p] pos by (simp add: wait_arrival_step [of e target n])
qed

lemma grid_run_unavailable_more:
  assumes "pose_unavailable e" and "robot_ready e"
  shows "fst (grid_move e (grid_points zero_pose ! 0) 1 (snd (grid_prelude e s))) = 0"
    and "get_pose_callback e = Some f \<Longrightarrow> pose_calls (run_calibration e s) = pose_calls s + 101"
    and "get_pose_callback e = None \<Longrightarrow> pose_calls (run_calibration e s) = pose_calls s"
    and "outfile_opens e \<Longrightarrow>
           outfile (run_calibration e s) = Some (''workspace/calibration_data.txt'', data_lines s)"
proof -
  have far: "\<forall>k. \<not> in_tolerance e (grid_points zero_pose ! 0) k"
    using first_grid_point_far [OF assms(1)] by simp
  have c: "fst (grid_prelude e s) = zero_pose"
    by (rule grid_run_unavailable(4) [OF assms(1)])
  have l: "0 < length (grid_points zero_pose)" by (simp add: length_grid_points)
  show z: "fst (grid_move e (grid_points zero_pose ! 0) 1 (snd (grid_prelude e s))) = 0"
    unfolding grid_move_def by (rule wait_arrival_stuck_zero [OF far]) simp
  then have t: "fst (grid_move e (grid_points zero_pose ! 0) (0 + 1) (snd (grid_prelude e s))) \<le> 0"
    by simp
  have loop: "grid_run_loop e s =
      log_msg (Text ''Timeout waiting for robot to reach point'')
        (snd (grid_move e (grid_points zero_pose ! 0) (0 + 1) (snd (grid_prelude e s))))"
    unfolding grid_run_loop_def c by (rule grid_loop_timeout [OF l t])
  have calls: "pose_calls (run_calibration e s)
      = arrival_calls e (grid_points zero_pose ! 0) 100 (next_call e (pose_calls s))"
    unfolding run_calibration_ready(4) [OF assms(2)] loop
    by (simp add: grid_move_eq log_msg_def grid_prelude_eq)
  show "pose_calls (run_calibration e s) = pose_calls s + 101" if f: "get_pose_callback e = Some f"
    unfolding calls using arrival_none(2) [OF f far, of 100] by (simp add: next_call_Some [OF f])
  show "pose_calls (run_calibration e s) = pose_calls s" if n: "get_pose_callback e = None"
  proof -
    have "snd (wait_arrival e (grid_points zero_pose ! 0) 100 (at_call k)) = at_call k" for k
    proof -
      have "snd (wait_arrival e target m t) = t" for target m t
      proof (induction "nat m" arbitrary: m t)
        case 0
        then show ?case by (simp add: wait_arrival_step [of e target m])
      next
        case (Suc j)
        have j: "j = nat (m - 1)" using Suc.hyps(2) by simp
        show ?case
          using Suc.hyps(1) [OF j]
          by (simp add: wait_arrival_step [of e target m] get_current_pose_m_rad_def n)
      qed
      then show ?thesis .
    qed
    then have "arrival_calls e (grid_points zero_pose ! 0) 100 k = k" for k
      by (simp add: arrival_calls_def at_call_def)
    moreover have "next_call e k = k" for k
      by (simp add: next_call_def get_current_pose_m_rad_def n at_call_def)
    ultimately show ?thesis unfolding calls by simp
  qed
  show "outfile (run_calibration e s) = Some (''workspace/calibration_data.txt'', data_lines s)"
    if "outfile_opens e"
    using that by (simp add: run_calibration_ready(3) [OF assms(2)] grid_run_unavailable(1) [OF assms(1)])
qed

lemma pyramid_rows_unavailable:
  assumes "pose_unavailable e" and "ax_r2 ax < 5"
  shows "pyramid_rows e ax layers tilt targets i k
     = map (\<lambda>j. (Suc j, zero_pose)) [i..<length targets]"
proof (induction "length targets - i" arbitrary: i k)
  case 0
  then show ?case by (simp add: pyramid_rows_done)
next
  case (Suc n)
  then have i: "i < length targets" and n: "n = length targets - (i + 1)" by simp_all
  from dither_pose_defined [OF assms(2)] obtain p
    where p: "dither_pose ax layers tilt i (targets ! i) = Inr p" by blast
  have u: "[i..<length targets] = i # [i + 1..<length targets]"
    using i by (simp add: upt_conv_Cons)
  show ?case
    unfolding pyramid_rows_next [OF i p] u unavailable_reported [OF assms(1)]
    using Suc.hyps(1) [OF n] by simp
qed

text \<open>
  C10, amended. When the provider is absent or answers with fewer than six values, the
  pose read is the zero pose and no error arises. When that holds for every call and the
  robot is ready: the pyramid run, for every direction but \<^verbatim>\<open>X+\<close>, \<^verbatim>\<open>X-\<close>, \<^verbatim>\<open>Y+\<close>, \<^verbatim>\<open>Y-\<close>,
  visits every target (three scripts each, then the return move), records the zero pose
  for each of the \<open>4 * layers\<close> points and writes these rows when the file opens; the
  grid run takes the zero pose as its centre, uses up the 100 attempts of the wait for
  point 1 (101 calls to a provider that is present), logs the timeout and adds no row,
  sends the return move and writes the rows it started with when the file opens.
\<close>

theorem missing_pose_is_zero_pose:
  "(get_pose_callback e = None
      \<or> (\<exists>f. get_pose_callback e = Some f \<and> length (f (pose_calls s)) < 6) \<longrightarrow>
      fst (get_current_pose_m_rad e s) = zero_pose)
   \<and> (pose_unavailable e \<and> robot_ready e \<and> d \<notin> {''X+'', ''X-'', ''Y+'', ''Y-''} \<longrightarrow>
        (\<exists>s'. run_3d_calibration layers bw tw h tilt d e s = Inr s'
           \<and> data_lines s' = data_lines s @ map (\<lambda>j. (Suc j, zero_pose)) [0..<4 * nat layers]
           \<and> length (scripts s') = length (scripts s) + 3 * (4 * nat layers) + 1
           \<and> (outfile_opens e \<longrightarrow>
                outfile s' = Some (''workspace/calibration_3d_data.txt'', data_lines s'))))
   \<and> (pose_unavailable e \<and> robot_ready e \<longrightarrow>
        fst (grid_prelude e s) = zero_pose
      \<and> wait_outcome (fst (grid_move e (grid_points zero_pose ! 0) 1 (snd (grid_prelude e s))))
          = TimedOut
      \<and> fst (grid_move e (grid_points zero_pose ! 0) 1 (snd (grid_prelude e s))) = 0
      \<and> (get_pose_callback e \<noteq> None \<longrightarrow> pose_calls (run_calibration e s) = pose_calls s + 101)
      \<and> data_lines (run_calibration e s) = data_lines s
      \<and> scripts (run_calibration e s)
          = scripts s @ [MoveL [0, - 0.05, - 0.05, 0, 0, 0] MOVE_ACCEL MOVE_SPEED,
                         MoveL zero_pose 0.5 0.2]
      \<and> Text ''Timeout waiting for robot to reach point'' \<in> set (log_lines (run_calibration e s))
      \<and> (outfile_opens e \<longrightarrow>
           outfile (run_calibration e s) = Some (''workspace/calibration_data.txt'', data_lines s)))"
proof (intro conjI impI)
  assume "get_pose_callback e = None
      \<or> (\<exists>f. get_pose_callback e = Some f \<and> length (f (pose_calls s)) < 6)"
  then show "fst (get_current_pose_m_rad e s) = zero_pose"
    by (rule zero_pose_substituted)
next
  assume a: "pose_unavailable e \<and> robot_ready e \<and> d \<notin> {''X+'', ''X-'', ''Y+'', ''Y-''}"
  then have u: "pose_unavailable e" and r: "robot_ready e" and x: "ax_r2 (direction_axes d) < 5"
    by (simp_all add: direction_axes_defined)
  note f = pyramid_run_defined [OF r x, of layers bw tw h tilt s]
  let ?s = "projr (run_3d_calibration layers bw tw h tilt d e s)"
  have rows: "data_lines ?s = data_lines s @ map (\<lambda>j. (Suc j, zero_pose)) [0..<4 * nat layers]"
    unfolding f(2) pyramid_rows_unavailable [OF u x] length_pyramid_targets ..
  have fl: "outfile_opens e \<longrightarrow>
      outfile ?s = Some (''workspace/calibration_3d_data.txt'', data_lines ?s)"
    by (simp add: f(4))
  show "\<exists>s'. run_3d_calibration layers bw tw h tilt d e s = Inr s'
           \<and> data_lines s' = data_lines s @ map (\<lambda>j. (Suc j, zero_pose)) [0..<4 * nat layers]
           \<and> length (scripts s') = length (scripts s) + 3 * (4 * nat layers) + 1
           \<and> (outfile_opens e \<longrightarrow>
                outfile s' = Some (''workspace/calibration_3d_data.txt'', data_lines s'))"
    using f(1) rows f(3) fl by blast
next
  assume a: "pose_unavailable e \<and> robot_ready e"
  then have u: "pose_unavailable e" and r: "robot_ready e" by simp_all
  note m = grid_run_unavailable_more [OF u r, where s = s]
  show "fst (grid_prelude e s) = zero_pose"
    by (rule grid_run_unavailable(4) [OF u])
  show z: "fst (grid_move e (grid_points zero_pose ! 0) 1 (snd (grid_prelude e s))) = 0"
    by (rule m(1))
  show "wait_outcome (fst (grid_move e (grid_points zero_pose ! 0) 1 (snd (grid_prelude e s))))
          = TimedOut"
    unfolding z by (simp add: wait_outcome_def)
  show "pose_calls (run_calibration e s) = pose_calls s + 101" if "get_pose_callback e \<noteq> None"
  proof -
    from that obtain f where "get_pose_callback e = Some f" by auto
    then show ?thesis by (rule m(2))
  qed
  show "data_lines (run_calibration e s) = data_lines s"
    by (rule grid_run_unavailable_run(1) [OF u r])
  show "scripts (run_calibration e s)
          = scripts s @ [MoveL [0, - 0.05, - 0.05, 0, 0, 0] MOVE_ACCEL MOVE_SPEED,
                         MoveL zero_pose 0.5 0.2]"
    by (rule grid_run_unavailable_run(2) [OF u r])
  show "Text ''Timeout waiting for robot to reach point'' \<in> set (log_lines (run_calibration e s))"
    by (rule grid_run_unavailable_run(3) [OF u r])
  show "outfile (run_calibration e s) = Some (''workspace/calibration_data.txt'', data_lines s)"
    if "outfile_opens e"
    using that by (rule m(4))
qed

theorem missing_pose_is_zero_pose_witness:
  "(\<exists>f. get_pose_callback short_env = Some f \<and> length (f (pose_calls initial_state)) < 6)
   \<and> pose_unavailable short_env \<and> robot_ready short_env \<and> outfile_opens short_env
   \<and> get_pose_callback short_env \<noteq> None
   \<and> ''Z-'' \<notin> {''X+'', ''X-'', ''Y+'', ''Y-''}
   \<and> fst (get_current_pose_m_rad short_env initial_state) = zero_pose
   \<and> (\<exists>s'. run_3d_calibration 1 100 50 50 10 ''Z-'' short_env initial_state = Inr s'
        \<and> data_lines s' = [(1, zero_pose), (2, zero_pose), (3, zero_pose), (4, zero_pose)]
        \<and> length (scripts s') = 13
        \<and> outfile s' = Some (''workspace/calibration_3d_data.txt'',
             [(1, zero_pose), (2, zero_pose), (3, zero_pose), (4, zero_pose)]))
   \<and> data_lines (run_calibration short_env initial_state) = []
   \<and> pose_calls (run_calibration short_env initial_state) = 101
   \<and> outfile (run_calibration short_env initial_state)
       = Some (''workspace/calibration_data.txt'', [])"
proof -
  have c: "get_pose_callback short_env = Some (\<lambda>n. [1, 2, 3])" by (simp add: short_env_def)
  then have x: "\<exists>f. get_pose_callback short_env = Some f \<and> length (f (pose_calls initial_state)) < 6"
    by simp
  have n: "get_pose_callback short_env \<noteq> None" using c by simp
  have u: "pose_unavailable short_env" by (simp add: pose_unavailable_def c)
  have r: "robot_ready short_env" by (simp add: robot_ready_def short_env_def)
  have o: "outfile_opens short_env" by (simp add: short_env_def)
  have d: "''Z-'' \<notin> {''X+'', ''X-'', ''Y+'', ''Y-''}" by simp
  have i: "data_lines initial_state = []" "scripts initial_state = []"
    "pose_calls initial_state = 0"
    by (simp_all add: initial_state_def)
  have m: "map (\<lambda>j. (Suc j, zero_pose)) [0..<4]
     = [(1, zero_pose), (2, zero_pose), (3, zero_pose), (4, zero_pose)]"
    by (simp add: upt_rec)
  note t = missing_pose_is_zero_pose [where e = short_env and s = initial_state and layers = 1
      and bw = 100 and tw = 50 and h = 50 and tilt = 10 and d = "''Z-''"]
  have pyr: "\<exists>s'. run_3d_calibration 1 100 50 50 10 ''Z-'' short_env initial_state = Inr s'
        \<and> data_lines s' = [(1, zero_pose), (2, zero_pose), (3, zero_pose), (4, zero_pose)]
        \<and> length (scripts s') = 13
        \<and> outfile s' = Some (''workspace/calibration_3d_data.txt'',
             [(1, zero_pose), (2, zero_pose), (3, zero_pose), (4, zero_pose)])"
    using t u r o d by (auto simp add: i m)
  have grid: "data_lines (run_calibration short_env initial_state) = []
      \<and> pose_calls (run_calibration short_env initial_state) = 101
      \<and> outfile (run_calibration short_env initial_state)
          = Some (''workspace/calibration_data.txt'', [])"
    using t u r o n by (simp add: i)
  have z: "fst (get_current_pose_m_rad short_env initial_state) = zero_pose"
    using t x by blast
  show ?thesis
    using x u r o n d z pyr grid by simp
qed

end
